theory Spec2Isabelle
  imports Main
begin

section \<open>JavaScript values and the static descriptors\<close>

text \<open>
  The script \<^verbatim>\<open>static/desmos_calculator.js\<close> drives an external graphing widget. The
  values that flow through it are booleans, numbers (all literals are integers below
  \<open>2^53\<close>), strings, thrown values, and the reference to the widget object itself.
\<close>

datatype jsval =
    JUndefined
  | JBool bool
  | JNum int
  | JStr string
  | JError string string
  | JCalculator

text \<open>
  \<open>JError name message\<close> is a thrown \<^verbatim>\<open>Error\<close> object; \<open>JCalculator\<close> is the reference to
  the one widget object the manager holds. The engine's \<^verbatim>\<open>TypeError\<close> for a member access on
  \<^verbatim>\<open>null\<close>/\<^verbatim>\<open>undefined\<close> carries the member's name as its message.
\<close>

definition TypeError :: "string \<Rightarrow> jsval" where
  "TypeError member = JError ''TypeError'' member"

record calculator_config =
  allowComplex :: bool
  expressions :: bool
  settingsMenu :: bool
  smartGrapher :: bool

definition CALCULATOR_CONFIG :: calculator_config where
  "CALCULATOR_CONFIG =
     \<lparr>allowComplex = True, expressions = True, settingsMenu = True, smartGrapher = True\<rparr>"

text \<open>A settings object is a list of key/value pairs in insertion order.\<close>

type_synonym settings = "(string \<times> jsval) list"

definition DEFAULT_SETTINGS :: settings where
  "DEFAULT_SETTINGS =
     [(''degreeMode'', JBool False),
      (''xAxisScale'', JStr ''logarithmic''),
      (''yAxisScale'', JStr ''linear'')]"

text \<open>Reading a property of an object: a missing key reads as \<^verbatim>\<open>undefined\<close>.\<close>

definition get_prop :: "settings \<Rightarrow> string \<Rightarrow> jsval" where
  "get_prop obj k = (case map_of obj k of None \<Rightarrow> JUndefined | Some v \<Rightarrow> v)"

record bounds =
  left :: int
  right :: int
  bottom :: int
  top_b :: int

definition DEFAULT_BOUNDS :: bounds where
  "DEFAULT_BOUNDS = \<lparr>left = 10000, right = 10000000000, bottom = - 2, top_b = 2\<rparr>"

record slider_bounds =
  min_s :: int
  max_s :: int
  step_s :: int

record expression =
  id_e :: string
  latex :: string
  sliderBounds :: "slider_bounds option"

definition expr :: "string \<Rightarrow> string \<Rightarrow> expression" where
  "expr i l = \<lparr>id_e = i, latex = l, sliderBounds = None\<rparr>"

definition UNIT_DEFINITIONS :: "expression list" where
  "UNIT_DEFINITIONS =
     [expr ''f_unit'' ''f = 10^{-15}'',
      expr ''p_unit'' ''p = 10^{-12}'',
      expr ''n_unit'' ''n = 10^{-9}'',
      expr ''u_unit'' ''u = 10^{-6}'',
      expr ''m_unit'' ''m = 10^{-3}'',
      expr ''k_unit'' ''k = 10^{3}'',
      expr ''M_unit'' ''M = 10^{6}'',
      expr ''G_unit'' ''G = 10^{9}'']"

text \<open>The backslash of the LaTeX strings (written \<^verbatim>\<open>\\\<close> in the JavaScript literals).\<close>

definition bs :: string where
  "bs = [CHR 0x5C]"

text \<open>The single quote of the template string in \<^verbatim>\<open>init\<close>.\<close>

definition sq :: string where
  "sq = [CHR 0x27]"

text \<open>
  The list literal of \<^verbatim>\<open>addCoreExpressions\<close>. The entry \<^verbatim>\<open>z_val\<close>, the only place that
  mentions \<^verbatim>\<open>this.zLatex\<close>, is commented out in the source and so is absent here.
\<close>

definition coreExpressions :: "expression list" where
  "coreExpressions =
     [expr ''f'' (''Z = '' @ bs @ ''frac{1}{1+sR_{e}C_{e}}''),
      \<lparr>id_e = ''slider1'', latex = ''R_{e}=100'',
        sliderBounds = Some \<lparr>min_s = 100, max_s = 100000000, step_s = 1\<rparr>\<rparr>,
      expr ''slider2'' ''C_{e} = 1p'',
      expr ''z_abs'' (bs @ ''left|Z'' @ bs @ ''right|''),
      expr ''z_phase''
        (bs @ ''arctan'' @ bs @ ''left('' @ bs @ ''frac{'' @ bs @ ''operatorname{imag}''
          @ bs @ ''left(Z'' @ bs @ ''right)}{'' @ bs @ ''operatorname{real}''
          @ bs @ ''left(Z'' @ bs @ ''right)}'' @ bs @ ''right)''),
      expr ''s_def'' (''s = i * 2 * '' @ bs @ ''pi * x'')]"

section \<open>Number formatting of the template strings\<close>

text \<open>
  The decimal digits of a non-negative integer, and the text JavaScript gives an integer
  number in a template string.
\<close>

function digits :: "int \<Rightarrow> string" where
  "digits n =
     (if n < 10 then [''0123456789'' ! nat n]
      else digits (n div 10) @ [''0123456789'' ! nat (n mod 10)])"
  by pat_completeness auto
termination
  by (relation "measure (\<lambda>n. nat n)") auto

declare digits.simps [simp del]

definition show_int :: "int \<Rightarrow> string" where
  "show_int i = (if i < 0 then ''-'' @ digits (- i) else digits i)"

definition bounds_text :: "bounds \<Rightarrow> string" where
  "bounds_text b =
     ''left='' @ show_int (left b) @ '', right='' @ show_int (right b)
       @ '', bottom='' @ show_int (bottom b) @ '', top='' @ show_int (top_b b)"

section \<open>The page, the external widget and the manager's state\<close>

text \<open>
  The widget library is an external collaborator: its behaviour is a parameter. A call on a
  widget in state \<open>w\<close> returns the widget's next state and, when it throws, the thrown value.
  \<open>settings_of\<close> is the \<^verbatim>\<open>settings\<close> property (\<open>None\<close> when it is \<^verbatim>\<open>undefined\<close>);
  \<open>getElementById\<close> is the document lookup (\<open>None\<close> for \<^verbatim>\<open>null\<close>).
\<close>

type_synonym element = nat

record 'w env =
  getElementById :: "string \<Rightarrow> element option"
  GraphingCalculator :: "element \<Rightarrow> calculator_config \<Rightarrow> jsval + 'w"
  updateSettings :: "settings \<Rightarrow> 'w \<Rightarrow> jsval option \<times> 'w"
  setMathBounds :: "bounds \<Rightarrow> 'w \<Rightarrow> jsval option \<times> 'w"
  setExpression :: "expression \<Rightarrow> 'w \<Rightarrow> jsval option \<times> 'w"
  settings_of :: "'w \<Rightarrow> settings option"

datatype call =
    CallGraphingCalculator element calculator_config
  | CallUpdateSettings settings
  | CallSetMathBounds bounds
  | CallSetExpression expression

datatype level = LogLevel | ErrorLevel

datatype task = ApplySettingsTimer | AddExpressionsTimer

text \<open>
  The fields of \<^verbatim>\<open>DesmosCalculatorManager\<close>, followed by the part of the page the script
  touches: the console, the globals on \<^verbatim>\<open>window\<close>, the pending timers (due time and
  callback) and the clock. \<open>calls\<close> is a history variable: every call that reached the widget
  library, in order, with the value it threw if it threw.
\<close>

record 'w state =
  elementId :: string
  zLatex :: string
  calculator :: "'w option"
  isReady :: bool
  isFullyReady :: bool
  console :: "(level \<times> string \<times> jsval list) list"
  window :: "string \<rightharpoonup> jsval"
  timers :: "(nat \<times> task) list"
  now :: nat
  calls :: "(call \<times> jsval option) list"

record page =
  page_console :: "(level \<times> string \<times> jsval list) list"
  page_window :: "string \<rightharpoonup> jsval"
  page_now :: nat

definition console_log :: "string \<Rightarrow> jsval list \<Rightarrow> 'w state \<Rightarrow> 'w state" where
  "console_log msg args s = s\<lparr>console := console s @ [(LogLevel, msg, args)]\<rparr>"

definition console_error :: "string \<Rightarrow> jsval list \<Rightarrow> 'w state \<Rightarrow> 'w state" where
  "console_error msg args s = s\<lparr>console := console s @ [(ErrorLevel, msg, args)]\<rparr>"

definition setTimeout :: "task \<Rightarrow> nat \<Rightarrow> 'w state \<Rightarrow> 'w state" where
  "setTimeout cb delay s = s\<lparr>timers := timers s @ [(now s + delay, cb)]\<rparr>"

text \<open>
  A method call \<^verbatim>\<open>this.calculator.m(arg)\<close>: a \<^verbatim>\<open>TypeError\<close> when \<^verbatim>\<open>this.calculator\<close> is
  \<^verbatim>\<open>null\<close>, otherwise the library's method, whose outcome is recorded.
\<close>

definition call_updateSettings ::
  "'w env \<Rightarrow> settings \<Rightarrow> 'w state \<Rightarrow> jsval option \<times> 'w state" where
  "call_updateSettings env st s =
     (case calculator s of
        None \<Rightarrow> (Some (TypeError ''updateSettings''), s)
      | Some w \<Rightarrow>
          (case updateSettings env st w of
             (r, w') \<Rightarrow>
               (r, s\<lparr>calculator := Some w', calls := calls s @ [(CallUpdateSettings st, r)]\<rparr>)))"

definition call_setMathBounds ::
  "'w env \<Rightarrow> bounds \<Rightarrow> 'w state \<Rightarrow> jsval option \<times> 'w state" where
  "call_setMathBounds env b s =
     (case calculator s of
        None \<Rightarrow> (Some (TypeError ''setMathBounds''), s)
      | Some w \<Rightarrow>
          (case setMathBounds env b w of
             (r, w') \<Rightarrow>
               (r, s\<lparr>calculator := Some w', calls := calls s @ [(CallSetMathBounds b, r)]\<rparr>)))"

definition call_setExpression ::
  "'w env \<Rightarrow> expression \<Rightarrow> 'w state \<Rightarrow> jsval option \<times> 'w state" where
  "call_setExpression env e s =
     (case calculator s of
        None \<Rightarrow> (Some (TypeError ''setExpression''), s)
      | Some w \<Rightarrow>
          (case setExpression env e w of
             (r, w') \<Rightarrow>
               (r, s\<lparr>calculator := Some w', calls := calls s @ [(CallSetExpression e, r)]\<rparr>)))"

text \<open>\<^verbatim>\<open>this.calculator.settings\<close>, read without a side effect.\<close>

definition read_settings :: "'w env \<Rightarrow> 'w state \<Rightarrow> settings option" where
  "read_settings env s =
     (case calculator s of None \<Rightarrow> None | Some w \<Rightarrow> settings_of env w)"

section \<open>The manager\<close>

definition constructor :: "page \<Rightarrow> string \<Rightarrow> string \<Rightarrow> 'w state" where
  "constructor pg eid z =
     \<lparr>elementId = eid, zLatex = z, calculator = None, isReady = False, isFullyReady = False,
      console = page_console pg, window = page_window pg, timers = [], now = page_now pg,
      calls = []\<rparr>"

subsection \<open>Settings phase\<close>

text \<open>
  \<^verbatim>\<open>logSettingsStatus\<close>: the first line is printed before \<^verbatim>\<open>this.calculator.settings\<close> is
  dereferenced; a missing \<^verbatim>\<open>settings\<close> object throws there.
\<close>

definition logSettingsStatus :: "'w env \<Rightarrow> 'w state \<Rightarrow> jsval option \<times> 'w state" where
  "logSettingsStatus env s =
     (let s1 = console_log ''Settings applied successfully!'' [] s in
      case read_settings env s1 of
        None \<Rightarrow> (Some (TypeError ''degreeMode''), s1)
      | Some st \<Rightarrow>
          (let s2 = console_log ''Degree Mode:'' [get_prop st ''degreeMode''] s1;
               s3 = console_log ''X Axis Scale:'' [get_prop st ''xAxisScale''] s2;
               s4 = console_log ''Y Axis Scale:'' [get_prop st ''yAxisScale''] s3
           in (None,
               console_log (''Math bounds should now be: '' @ bounds_text DEFAULT_BOUNDS) [] s4)))"

definition settingsToTry :: "(settings \<times> string) list" where
  "settingsToTry =
     [([(''degreeMode'', JBool False)], ''Degree mode''),
      ([(''xAxisScale'', JStr ''logarithmic'')], ''X-axis logarithmic scale'')]"

text \<open>The \<^verbatim>\<open>forEach\<close> of \<^verbatim>\<open>applySettingsIndividually\<close>: each entry in its own try/catch.\<close>

fun trySettings :: "'w env \<Rightarrow> (settings \<times> string) list \<Rightarrow> 'w state \<Rightarrow> 'w state" where
  "trySettings env [] s = s"
| "trySettings env ((setting, name) # rest) s =
     trySettings env rest
       (case call_updateSettings env setting s of
          (None, s') \<Rightarrow> console_log (name @ '' applied successfully'') [] s'
        | (Some e, s') \<Rightarrow> console_error (name @ '' failed:'') [e] s')"

definition applySettingsIndividually :: "'w env \<Rightarrow> 'w state \<Rightarrow> 'w state" where
  "applySettingsIndividually env s =
     (case call_setMathBounds env DEFAULT_BOUNDS (trySettings env settingsToTry s) of
        (None, s') \<Rightarrow> console_log ''Math bounds applied successfully'' [] s'
      | (Some e, s') \<Rightarrow> console_error ''Math bounds failed:'' [e] s')"

text \<open>\<^verbatim>\<open>addExpressions\<close> only arms the 200 ms timer.\<close>

definition addExpressions :: "'w state \<Rightarrow> 'w state" where
  "addExpressions s = setTimeout AddExpressionsTimer 200 s"

text \<open>The \<^verbatim>\<open>try\<close> block of the settings callback; \<open>Some e\<close> is the value that reaches \<^verbatim>\<open>catch\<close>.\<close>

definition applySettings_try :: "'w env \<Rightarrow> 'w state \<Rightarrow> jsval option \<times> 'w state" where
  "applySettings_try env s =
     (case call_updateSettings env DEFAULT_SETTINGS s of
        (Some e, s1) \<Rightarrow> (Some e, s1)
      | (None, s1) \<Rightarrow>
          (case call_setMathBounds env DEFAULT_BOUNDS s1 of
             (Some e, s2) \<Rightarrow> (Some e, s2)
           | (None, s2) \<Rightarrow>
               (case logSettingsStatus env
                       (console_log (''setMathBounds called with bounds: ''
                          @ bounds_text DEFAULT_BOUNDS) [] s2) of
                  (Some e, s3) \<Rightarrow> (Some e, s3)
                | (None, s3) \<Rightarrow>
                    (None, s3\<lparr>isReady := True,
                              window := (window s3)(''calculatorReady'' \<mapsto> JBool True)\<rparr>))))"

text \<open>The arrow function handed to \<^verbatim>\<open>setTimeout\<close> by \<^verbatim>\<open>applySettings\<close>.\<close>

definition applySettings_callback :: "'w env \<Rightarrow> 'w state \<Rightarrow> 'w state" where
  "applySettings_callback env s =
     addExpressions
       (case applySettings_try env (console_log ''Applying calculator settings...'' [] s) of
          (None, s') \<Rightarrow> s'
        | (Some error, s') \<Rightarrow>
            applySettingsIndividually env
              (console_error ''Error applying settings:'' [error] s'))"

definition applySettings :: "'w state \<Rightarrow> 'w state" where
  "applySettings s = setTimeout ApplySettingsTimer 500 s"

subsection \<open>Expression phase\<close>

text \<open>
  The \<^verbatim>\<open>forEach\<close> of \<^verbatim>\<open>addCoreExpressions\<close> has no try/catch: the first throw leaves the
  loop and the method.
\<close>

fun setExpressions :: "'w env \<Rightarrow> expression list \<Rightarrow> 'w state \<Rightarrow> jsval option \<times> 'w state" where
  "setExpressions env [] s = (None, s)"
| "setExpressions env (e # es) s =
     (case call_setExpression env e s of
        (Some x, s') \<Rightarrow> (Some x, s')
      | (None, s') \<Rightarrow> setExpressions env es s')"

definition addCoreExpressions :: "'w env \<Rightarrow> 'w state \<Rightarrow> jsval option \<times> 'w state" where
  "addCoreExpressions env s = setExpressions env coreExpressions s"

text \<open>
  The \<^verbatim>\<open>forEach\<close> of \<^verbatim>\<open>addUnitDefinitions\<close>, from index \<open>index\<close>: each unit in its own
  try/catch, so the loop never throws.
\<close>

fun addUnits :: "'w env \<Rightarrow> expression list \<Rightarrow> nat \<Rightarrow> 'w state \<Rightarrow> 'w state" where
  "addUnits env [] index s = s"
| "addUnits env (unit # rest) index s =
     addUnits env rest (index + 1)
       (case call_setExpression env unit s of
          (None, s') \<Rightarrow>
            console_log (''Unit '' @ show_int (int index + 1) @ '' added successfully'') [] s'
        | (Some e, s') \<Rightarrow>
            console_error (''Unit '' @ show_int (int index + 1) @ '' failed:'') [e] s')"

definition addUnitDefinitions :: "'w env \<Rightarrow> 'w state \<Rightarrow> 'w state" where
  "addUnitDefinitions env s = addUnits env UNIT_DEFINITIONS 0 s"

definition addExpressions_try :: "'w env \<Rightarrow> 'w state \<Rightarrow> jsval option \<times> 'w state" where
  "addExpressions_try env s =
     (case addCoreExpressions env s of
        (Some e, s1) \<Rightarrow> (Some e, s1)
      | (None, s1) \<Rightarrow>
          (let s2 = console_log ''All expressions added successfully!'' []
                      (addUnitDefinitions env s1)
           in (None, s2\<lparr>isFullyReady := True,
                        window := (window s2)(''calculatorFullyReady'' \<mapsto> JBool True)\<rparr>)))"

text \<open>The arrow function handed to \<^verbatim>\<open>setTimeout\<close> by \<^verbatim>\<open>addExpressions\<close>.\<close>

definition addExpressions_callback :: "'w env \<Rightarrow> 'w state \<Rightarrow> 'w state" where
  "addExpressions_callback env s =
     (case addExpressions_try env (console_log ''Adding expressions...'' [] s) of
        (None, s') \<Rightarrow> s'
      | (Some error, s') \<Rightarrow> console_error ''Error adding expressions:'' [error] s')"

subsection \<open>Mount stage and the factory\<close>

text \<open>
  \<^verbatim>\<open>init\<close>. The first component is the exception that leaves \<^verbatim>\<open>init\<close>: only the widget
  constructor is called outside any try/catch.
\<close>

definition init :: "'w env \<Rightarrow> 'w state \<Rightarrow> jsval option \<times> 'w state" where
  "init env s =
     (let s1 = console_log ''Initializing Desmos Calculator...'' [] s in
      case getElementById env (elementId s1) of
        None \<Rightarrow>
          (None,
           console_error (''Element with ID '' @ sq @ elementId s1 @ sq @ '' not found'') [] s1)
      | Some element \<Rightarrow>
          (case GraphingCalculator env element CALCULATOR_CONFIG of
             Inl e \<Rightarrow>
               (Some e,
                s1\<lparr>calls := calls s1
                      @ [(CallGraphingCalculator element CALCULATOR_CONFIG, Some e)]\<rparr>)
           | Inr w \<Rightarrow>
               (None,
                applySettings
                  (console_log
                     ''Calculator object available as window.desmosCalc for debugging'' []
                     (s1\<lparr>calculator := Some w,
                         window := (window s1)(''desmosCalc'' \<mapsto> JCalculator),
                         calls := calls s1
                           @ [(CallGraphingCalculator element CALCULATOR_CONFIG, None)]\<rparr>)))))"

definition getStatus :: "'w state \<Rightarrow> bool \<times> bool \<times> 'w option" where
  "getStatus s = (isReady s, isFullyReady s, calculator s)"

definition initializeCalculator :: "'w env \<Rightarrow> page \<Rightarrow> string \<Rightarrow> jsval option \<times> 'w state" where
  "initializeCalculator env pg z = init env (constructor pg ''calculator'' z)"

section \<open>The timer queue\<close>

text \<open>
  The browser fires the pending timer with the earliest due time, the one armed first among
  equals, and removes it from the queue.
\<close>

fun next_timer :: "(nat \<times> task) list \<Rightarrow> ((nat \<times> task) \<times> (nat \<times> task) list) option" where
  "next_timer [] = None"
| "next_timer (t # ts) =
     (case next_timer ts of
        None \<Rightarrow> Some (t, [])
      | Some (u, rest) \<Rightarrow> if fst u < fst t then Some (u, t # rest) else Some (t, ts))"

fun fire :: "'w env \<Rightarrow> task \<Rightarrow> 'w state \<Rightarrow> 'w state" where
  "fire env ApplySettingsTimer s = applySettings_callback env s"
| "fire env AddExpressionsTimer s = addExpressions_callback env s"

text \<open>One turn of the event loop: advance the clock to the timer's due time and run it.\<close>

definition turn :: "'w env \<Rightarrow> (nat \<times> task) \<Rightarrow> (nat \<times> task) list \<Rightarrow> 'w state \<Rightarrow> 'w state" where
  "turn env t rest s = fire env (snd t) (s\<lparr>timers := rest, now := max (now s) (fst t)\<rparr>)"

fun rank :: "task \<Rightarrow> nat" where
  "rank ApplySettingsTimer = 2"
| "rank AddExpressionsTimer = 1"

definition pending :: "'w state \<Rightarrow> nat" where
  "pending s = sum_list (map (\<lambda>t. rank (snd t)) (timers s))"

function run_timers :: "'w env \<Rightarrow> 'w state \<Rightarrow> 'w state" where
  "run_timers env s =
     (case next_timer (timers s) of
        None \<Rightarrow> s
      | Some (t, rest) \<Rightarrow> run_timers env (turn env t rest s))"
  by pat_completeness auto

text \<open>
  A run of the page: the host calls the factory, then the event loop runs until no timer is
  pending. An exception leaving the factory is the first component.
\<close>

definition run_page :: "'w env \<Rightarrow> page \<Rightarrow> string \<Rightarrow> jsval option \<times> 'w state" where
  "run_page env pg z =
     (case initializeCalculator env pg z of (r, s) \<Rightarrow> (r, run_timers env s))"

section \<open>Vocabulary of the statements\<close>

text \<open>The calls and the console lines added between an earlier state and a later one.\<close>

definition new_calls :: "'w state \<Rightarrow> 'w state \<Rightarrow> (call \<times> jsval option) list" where
  "new_calls s s' = drop (length (calls s)) (calls s')"

definition new_lines :: "'w state \<Rightarrow> 'w state \<Rightarrow> (level \<times> string \<times> jsval list) list" where
  "new_lines s s' = drop (length (console s)) (console s')"

text \<open>The console line of \<^verbatim>\<open>addUnitDefinitions\<close> for unit number \<open>n\<close> with outcome \<open>r\<close>.\<close>

definition unit_line :: "nat \<Rightarrow> jsval option \<Rightarrow> level \<times> string \<times> jsval list" where
  "unit_line n r =
     (case r of
        None \<Rightarrow> (LogLevel, ''Unit '' @ show_int (int n) @ '' added successfully'', [])
      | Some e \<Rightarrow> (ErrorLevel, ''Unit '' @ show_int (int n) @ '' failed:'', [e]))"

text \<open>The console line of \<^verbatim>\<open>applySettingsIndividually\<close> for the bounds call.\<close>

definition bounds_line :: "jsval option \<Rightarrow> level \<times> string \<times> jsval list" where
  "bounds_line r =
     (case r of
        None \<Rightarrow> (LogLevel, ''Math bounds applied successfully'', [])
      | Some e \<Rightarrow> (ErrorLevel, ''Math bounds failed:'', [e]))"

text \<open>
  The state in which the \<^verbatim>\<open>try\<close> block of the settings callback starts, and whether that
  block runs to its end (the non-fallback path).
\<close>

definition settings_entry :: "'w state \<Rightarrow> 'w state" where
  "settings_entry s = console_log ''Applying calculator settings...'' [] s"

definition settings_succeed :: "'w env \<Rightarrow> 'w state \<Rightarrow> bool" where
  "settings_succeed env s = (fst (applySettings_try env (settings_entry s)) = None)"

definition expressions_entry :: "'w state \<Rightarrow> 'w state" where
  "expressions_entry s = console_log ''Adding expressions...'' [] s"

text \<open>
  What the core batch throws inside the \<^verbatim>\<open>try\<close> block of the expression callback
  (\<open>None\<close> when it completes), and the state it leaves.
\<close>

definition core_outcome :: "'w env \<Rightarrow> 'w state \<Rightarrow> jsval option" where
  "core_outcome env s = fst (addCoreExpressions env (expressions_entry s))"

definition after_core :: "'w env \<Rightarrow> 'w state \<Rightarrow> 'w state" where
  "after_core env s = snd (addCoreExpressions env (expressions_entry s))"

text \<open>The console line of \<^verbatim>\<open>applySettingsIndividually\<close> for one settings entry.\<close>

definition setting_line :: "string \<Rightarrow> jsval option \<Rightarrow> level \<times> string \<times> jsval list" where
  "setting_line name r =
     (case r of
        None \<Rightarrow> (LogLevel, name @ '' applied successfully'', [])
      | Some e \<Rightarrow> (ErrorLevel, name @ '' failed:'', [e]))"


text \<open>
  The state in which a callback armed with delay \<open>d\<close> starts when it was the only pending
  timer: the queue is empty and the clock has advanced by \<open>d\<close>.
\<close>

definition elapse :: "nat \<Rightarrow> 'w state \<Rightarrow> 'w state" where
  "elapse d s = s\<lparr>timers := [], now := now s + d\<rparr>"

text \<open>The same state with another formula string stored in \<^verbatim>\<open>zLatex\<close>.\<close>

definition with_formula :: "string \<Rightarrow> 'w state \<Rightarrow> 'w state" where
  "with_formula z s = s\<lparr>zLatex := z\<rparr>"

text \<open>
  The widget after \<^verbatim>\<open>setExpression\<close> has been called on it for each entry of a list in
  turn, and what each of those calls threw.
\<close>

fun widget_after :: "'w env \<Rightarrow> expression list \<Rightarrow> 'w \<Rightarrow> 'w" where
  "widget_after env [] w = w"
| "widget_after env (e # es) w = widget_after env es (snd (setExpression env e w))"

fun returns :: "'w env \<Rightarrow> expression list \<Rightarrow> 'w \<Rightarrow> jsval option list" where
  "returns env [] w = []"
| "returns env (e # es) w =
     fst (setExpression env e w) # returns env es (snd (setExpression env e w))"

section \<open>A concrete widget for exercising the statements\<close>

text \<open>
  A widget that stores what it is given, and rejects (throws on) the arguments selected by
  three predicates. The document has the single element \<^verbatim>\<open>calculator\<close>.
\<close>

record widget =
  applied_settings :: settings
  math_bounds :: "bounds option"
  registered :: "expression list"

definition blank_widget :: widget where
  "blank_widget = \<lparr>applied_settings = [], math_bounds = None, registered = []\<rparr>"

definition rejected :: jsval where
  "rejected = JError ''Error'' ''rejected''"

definition stub_env ::
  "(settings \<Rightarrow> bool) \<Rightarrow> (bounds \<Rightarrow> bool) \<Rightarrow> (expression \<Rightarrow> bool) \<Rightarrow> widget env" where
  "stub_env bad_settings bad_bounds bad_expression =
     \<lparr>getElementById = (\<lambda>i. if i = ''calculator'' then Some 0 else None),
      GraphingCalculator = (\<lambda>el cfg. Inr blank_widget),
      updateSettings = (\<lambda>st w.
         if bad_settings st then (Some rejected, w)
         else (None, w\<lparr>applied_settings := st @ applied_settings w\<rparr>)),
      setMathBounds = (\<lambda>b w.
         if bad_bounds b then (Some rejected, w) else (None, w\<lparr>math_bounds := Some b\<rparr>)),
      setExpression = (\<lambda>e w.
         if bad_expression e then (Some rejected, w)
         else (None, w\<lparr>registered := registered w @ [e]\<rparr>)),
      settings_of = (\<lambda>w. Some (applied_settings w))\<rparr>"

definition plain_env :: "widget env" where
  "plain_env = stub_env (\<lambda>st. False) (\<lambda>b. False) (\<lambda>e. False)"

text \<open>Rejects a settings object with more than one key: the batch call throws.\<close>

definition no_batch_env :: "widget env" where
  "no_batch_env = stub_env (\<lambda>st. 1 < length st) (\<lambda>b. False) (\<lambda>e. False)"

definition no_bounds_env :: "widget env" where
  "no_bounds_env = stub_env (\<lambda>st. False) (\<lambda>b. True) (\<lambda>e. False)"

text \<open>Rejects the first core expression.\<close>

definition no_core_env :: "widget env" where
  "no_core_env = stub_env (\<lambda>st. False) (\<lambda>b. False) (\<lambda>e. id_e e = ''f'')"

text \<open>Rejects the third unit definition.\<close>

definition no_nano_env :: "widget env" where
  "no_nano_env = stub_env (\<lambda>st. False) (\<lambda>b. False) (\<lambda>e. id_e e = ''n_unit'')"

text \<open>Rejects the batch settings call and every bounds call.\<close>

definition no_batch_no_bounds_env :: "widget env" where
  "no_batch_no_bounds_env = stub_env (\<lambda>st. 1 < length st) (\<lambda>b. True) (\<lambda>e. False)"

text \<open>A widget without a \<^verbatim>\<open>settings\<close> object.\<close>

definition no_status_env :: "widget env" where
  "no_status_env = plain_env\<lparr>settings_of := (\<lambda>w. None)\<rparr>"

text \<open>A library whose widget constructor throws, and a document without the element.\<close>

definition no_widget_env :: "widget env" where
  "no_widget_env = plain_env\<lparr>GraphingCalculator := (\<lambda>el cfg. Inl rejected)\<rparr>"

definition no_element_env :: "widget env" where
  "no_element_env = plain_env\<lparr>getElementById := (\<lambda>i. None)\<rparr>"



definition blank_page :: page where
  "blank_page = \<lparr>page_console = [], page_window = Map.empty, page_now = 0\<rparr>"

text \<open>A manager whose widget exists, as \<^verbatim>\<open>init\<close> leaves it when the element is found.\<close>

definition mounted :: "widget state" where
  "mounted = snd (initializeCalculator plain_env blank_page ''1/(1+s)'')"

section \<open>What each operation leaves unchanged\<close>

lemma console_log_fields [simp]:
  "elementId (console_log m a s) = elementId s"
  "zLatex (console_log m a s) = zLatex s"
  "calculator (console_log m a s) = calculator s"
  "isReady (console_log m a s) = isReady s"
  "isFullyReady (console_log m a s) = isFullyReady s"
  "console (console_log m a s) = console s @ [(LogLevel, m, a)]"
  "window (console_log m a s) = window s"
  "timers (console_log m a s) = timers s"
  "now (console_log m a s) = now s"
  "calls (console_log m a s) = calls s"
  by (simp_all add: console_log_def)

lemma console_error_fields [simp]:
  "elementId (console_error m a s) = elementId s"
  "zLatex (console_error m a s) = zLatex s"
  "calculator (console_error m a s) = calculator s"
  "isReady (console_error m a s) = isReady s"
  "isFullyReady (console_error m a s) = isFullyReady s"
  "console (console_error m a s) = console s @ [(ErrorLevel, m, a)]"
  "window (console_error m a s) = window s"
  "timers (console_error m a s) = timers s"
  "now (console_error m a s) = now s"
  "calls (console_error m a s) = calls s"
  by (simp_all add: console_error_def)

lemma setTimeout_fields [simp]:
  "elementId (setTimeout cb d s) = elementId s"
  "zLatex (setTimeout cb d s) = zLatex s"
  "calculator (setTimeout cb d s) = calculator s"
  "isReady (setTimeout cb d s) = isReady s"
  "isFullyReady (setTimeout cb d s) = isFullyReady s"
  "console (setTimeout cb d s) = console s"
  "window (setTimeout cb d s) = window s"
  "timers (setTimeout cb d s) = timers s @ [(now s + d, cb)]"
  "now (setTimeout cb d s) = now s"
  "calls (setTimeout cb d s) = calls s"
  by (simp_all add: setTimeout_def)

lemma call_updateSettings_fields [simp]:
  "elementId (snd (call_updateSettings env a s)) = elementId s"
  "zLatex (snd (call_updateSettings env a s)) = zLatex s"
  "isReady (snd (call_updateSettings env a s)) = isReady s"
  "isFullyReady (snd (call_updateSettings env a s)) = isFullyReady s"
  "console (snd (call_updateSettings env a s)) = console s"
  "window (snd (call_updateSettings env a s)) = window s"
  "timers (snd (call_updateSettings env a s)) = timers s"
  "now (snd (call_updateSettings env a s)) = now s"
  by (simp_all add: call_updateSettings_def split: option.split prod.split)

lemma call_setMathBounds_fields [simp]:
  "elementId (snd (call_setMathBounds env a s)) = elementId s"
  "zLatex (snd (call_setMathBounds env a s)) = zLatex s"
  "isReady (snd (call_setMathBounds env a s)) = isReady s"
  "isFullyReady (snd (call_setMathBounds env a s)) = isFullyReady s"
  "console (snd (call_setMathBounds env a s)) = console s"
  "window (snd (call_setMathBounds env a s)) = window s"
  "timers (snd (call_setMathBounds env a s)) = timers s"
  "now (snd (call_setMathBounds env a s)) = now s"
  by (simp_all add: call_setMathBounds_def split: option.split prod.split)

lemma call_setExpression_fields [simp]:
  "elementId (snd (call_setExpression env a s)) = elementId s"
  "zLatex (snd (call_setExpression env a s)) = zLatex s"
  "isReady (snd (call_setExpression env a s)) = isReady s"
  "isFullyReady (snd (call_setExpression env a s)) = isFullyReady s"
  "console (snd (call_setExpression env a s)) = console s"
  "window (snd (call_setExpression env a s)) = window s"
  "timers (snd (call_setExpression env a s)) = timers s"
  "now (snd (call_setExpression env a s)) = now s"
  by (simp_all add: call_setExpression_def split: option.split prod.split)

lemma call_keeps_calculator [simp]:
  "(calculator (snd (call_updateSettings env a s)) = None) = (calculator s = None)"
  "(calculator (snd (call_setMathBounds env b s)) = None) = (calculator s = None)"
  "(calculator (snd (call_setExpression env e s)) = None) = (calculator s = None)"
  by (simp_all add: call_updateSettings_def call_setMathBounds_def call_setExpression_def
      split: option.split prod.split)

lemma logSettingsStatus_fields [simp]:
  "elementId (snd (logSettingsStatus env s)) = elementId s"
  "zLatex (snd (logSettingsStatus env s)) = zLatex s"
  "calculator (snd (logSettingsStatus env s)) = calculator s"
  "isReady (snd (logSettingsStatus env s)) = isReady s"
  "isFullyReady (snd (logSettingsStatus env s)) = isFullyReady s"
  "window (snd (logSettingsStatus env s)) = window s"
  "timers (snd (logSettingsStatus env s)) = timers s"
  "now (snd (logSettingsStatus env s)) = now s"
  "calls (snd (logSettingsStatus env s)) = calls s"
  by (simp_all add: logSettingsStatus_def Let_def split: option.split)

lemma trySettings_fields [simp]:
  "elementId (trySettings env xs s) = elementId s"
  "zLatex (trySettings env xs s) = zLatex s"
  "isReady (trySettings env xs s) = isReady s"
  "isFullyReady (trySettings env xs s) = isFullyReady s"
  "window (trySettings env xs s) = window s"
  "timers (trySettings env xs s) = timers s"
  "now (trySettings env xs s) = now s"
  by (induction env xs s rule: trySettings.induct; simp add: split_beta split: option.split)+

lemma applySettingsIndividually_fields [simp]:
  "elementId (applySettingsIndividually env s) = elementId s"
  "zLatex (applySettingsIndividually env s) = zLatex s"
  "isReady (applySettingsIndividually env s) = isReady s"
  "isFullyReady (applySettingsIndividually env s) = isFullyReady s"
  "window (applySettingsIndividually env s) = window s"
  "timers (applySettingsIndividually env s) = timers s"
  "now (applySettingsIndividually env s) = now s"
  by (simp_all add: applySettingsIndividually_def split_beta split: option.split)

lemma applySettings_try_fields [simp]:
  "elementId (snd (applySettings_try env s)) = elementId s"
  "zLatex (snd (applySettings_try env s)) = zLatex s"
  "isFullyReady (snd (applySettings_try env s)) = isFullyReady s"
  "timers (snd (applySettings_try env s)) = timers s"
  "now (snd (applySettings_try env s)) = now s"
  by (simp_all add: applySettings_try_def split_beta split: option.split)

lemma applySettings_callback_fields [simp]:
  "elementId (applySettings_callback env s) = elementId s"
  "zLatex (applySettings_callback env s) = zLatex s"
  "isFullyReady (applySettings_callback env s) = isFullyReady s"
  "timers (applySettings_callback env s) = timers s @ [(now s + 200, AddExpressionsTimer)]"
  "now (applySettings_callback env s) = now s"
  by (simp_all add: applySettings_callback_def addExpressions_def split_beta split: option.split)

lemma setExpressions_fields [simp]:
  "elementId (snd (setExpressions env es s)) = elementId s"
  "zLatex (snd (setExpressions env es s)) = zLatex s"
  "isReady (snd (setExpressions env es s)) = isReady s"
  "isFullyReady (snd (setExpressions env es s)) = isFullyReady s"
  "console (snd (setExpressions env es s)) = console s"
  "window (snd (setExpressions env es s)) = window s"
  "timers (snd (setExpressions env es s)) = timers s"
  "now (snd (setExpressions env es s)) = now s"
  by (induction es arbitrary: s; simp add: split_beta split: option.split)+

lemma addUnits_fields [simp]:
  "elementId (addUnits env us i s) = elementId s"
  "zLatex (addUnits env us i s) = zLatex s"
  "isReady (addUnits env us i s) = isReady s"
  "isFullyReady (addUnits env us i s) = isFullyReady s"
  "window (addUnits env us i s) = window s"
  "timers (addUnits env us i s) = timers s"
  "now (addUnits env us i s) = now s"
  by (induction us arbitrary: i s; simp add: split_beta split: option.split)+

lemma addExpressions_try_fields [simp]:
  "elementId (snd (addExpressions_try env s)) = elementId s"
  "zLatex (snd (addExpressions_try env s)) = zLatex s"
  "isReady (snd (addExpressions_try env s)) = isReady s"
  "timers (snd (addExpressions_try env s)) = timers s"
  "now (snd (addExpressions_try env s)) = now s"
  by (simp_all add: addExpressions_try_def addCoreExpressions_def addUnitDefinitions_def
      split_beta Let_def split: option.split)

lemma addExpressions_callback_fields [simp]:
  "elementId (addExpressions_callback env s) = elementId s"
  "zLatex (addExpressions_callback env s) = zLatex s"
  "isReady (addExpressions_callback env s) = isReady s"
  "timers (addExpressions_callback env s) = timers s"
  "now (addExpressions_callback env s) = now s"
  by (simp_all add: addExpressions_callback_def split_beta split: option.split)

lemma next_timer_None [simp]: "(next_timer ts = None) = (ts = [])"
  by (cases ts) (auto split: option.split)

lemma next_timer_rank:
  "next_timer ts = Some (t, rest) \<Longrightarrow>
     sum_list (map (\<lambda>t. rank (snd t)) ts) = rank (snd t) + sum_list (map (\<lambda>t. rank (snd t)) rest)"
  by (induction ts arbitrary: t rest) (auto split: option.splits if_splits)

lemma pending_turn:
  "next_timer (timers s) = Some (t, rest) \<Longrightarrow> pending (turn env t rest s) < pending s"
  by (cases "snd t") (auto simp: pending_def turn_def dest!: next_timer_rank)

section \<open>The event loop terminates\<close>

termination run_timers
  by (relation "measure (\<lambda>(env, s). pending s)") (auto simp: pending_turn)

declare run_timers.simps [simp del]

section \<open>The event loop on short queues\<close>

lemma run_timers_idle: "timers s = [] \<Longrightarrow> run_timers env s = s"
  by (simp add: run_timers.simps)

lemma run_timers_single:
  "timers s = [(d, k)] \<Longrightarrow>
     run_timers env s = run_timers env (fire env k (s\<lparr>timers := [], now := max (now s) d\<rparr>))"
  by (subst run_timers.simps) (simp add: turn_def)

section \<open>Mount stage: a missing element\<close>

text \<open>
  Claim C6. For every mount id that the document lookup does not find, \<^verbatim>\<open>init\<close> returns
  without an exception and changes nothing but the console: no widget is constructed (the
  manager's \<^verbatim>\<open>calculator\<close> stays \<^verbatim>\<open>null\<close> and no call reaches the widget library), no
  global is written, no timer is armed, both flags stay false, and the event loop has
  nothing to run afterwards, so neither the settings nor the expression phase ever runs.
  The console receives the line every \<^verbatim>\<open>init\<close> prints on entry and then the one error line
  that reports the missing element.
\<close>

theorem init_missing_element:
  assumes "getElementById env eid = None"
  shows "init env (constructor pg eid z) =
           (None,
            (constructor pg eid z)\<lparr>console := page_console pg
               @ [(LogLevel, ''Initializing Desmos Calculator...'', []),
                  (ErrorLevel, ''Element with ID '' @ sq @ eid @ sq @ '' not found'', [])]\<rparr>)
         \<and> calculator (snd (init env (constructor pg eid z))) = None
         \<and> calls (snd (init env (constructor pg eid z))) = []
         \<and> timers (snd (init env (constructor pg eid z))) = []
         \<and> window (snd (init env (constructor pg eid z))) = page_window pg
         \<and> \<not> isReady (snd (init env (constructor pg eid z)))
         \<and> \<not> isFullyReady (snd (init env (constructor pg eid z)))
         \<and> run_timers env (snd (init env (constructor pg eid z)))
             = snd (init env (constructor pg eid z))"
proof -
  have e: "init env (constructor pg eid z) =
           (None,
            (constructor pg eid z)\<lparr>console := page_console pg
               @ [(LogLevel, ''Initializing Desmos Calculator...'', []),
                  (ErrorLevel, ''Element with ID '' @ sq @ eid @ sq @ '' not found'', [])]\<rparr>)"
    using assms by (simp add: init_def constructor_def console_log_def console_error_def)
  have t: "timers (snd (init env (constructor pg eid z))) = []"
    by (simp only: e snd_conv) (simp add: constructor_def)
  have r: "run_timers env (snd (init env (constructor pg eid z)))
             = snd (init env (constructor pg eid z))"
    using t by (rule run_timers_idle)
  have f: "calculator (snd (init env (constructor pg eid z))) = None
         \<and> calls (snd (init env (constructor pg eid z))) = []
         \<and> window (snd (init env (constructor pg eid z))) = page_window pg
         \<and> \<not> isReady (snd (init env (constructor pg eid z)))
         \<and> \<not> isFullyReady (snd (init env (constructor pg eid z)))"
    by (simp only: e snd_conv) (simp add: constructor_def)
  from e t r f show ?thesis by blast
qed

theorem init_missing_element_witness:
  "getElementById plain_env ''graph'' = None
   \<and> init plain_env (constructor blank_page ''graph'' ''1/(1+s)'') =
       (None,
        (constructor blank_page ''graph'' ''1/(1+s)'')\<lparr>console :=
           [(LogLevel, ''Initializing Desmos Calculator...'', []),
            (ErrorLevel, ''Element with ID 'graph' not found'', [])]\<rparr>)"
proof -
  have h: "getElementById plain_env ''graph'' = None"
    by (simp add: plain_env_def stub_env_def)
  show ?thesis
    using h init_missing_element [OF h, of blank_page "''1/(1+s)''"]
    by (simp add: blank_page_def sq_def)
qed

section \<open>Expression phase: what reaches the widget\<close>

lemma call_setExpression_calls:
  "calculator s \<noteq> None \<Longrightarrow>
     calls (snd (call_setExpression env e s))
       = calls s @ [(CallSetExpression e, fst (call_setExpression env e s))]"
  by (auto simp: call_setExpression_def split: prod.split)

lemma setExpressions_calculator [simp]:
  "(calculator (snd (setExpressions env es s)) = None) = (calculator s = None)"
  by (induction es arbitrary: s) (simp_all add: split_beta split: option.split)

lemma addUnits_calculator [simp]:
  "(calculator (addUnits env us i s) = None) = (calculator s = None)"
  by (induction us arbitrary: i s) (simp_all add: split_beta split: option.split)

lemma setExpressions_ok:
  "calculator s \<noteq> None \<Longrightarrow> fst (setExpressions env es s) = None \<Longrightarrow>
     calls (snd (setExpressions env es s))
       = calls s @ map (\<lambda>e. (CallSetExpression e, None)) es"
proof (induction es arbitrary: s)
  case Nil
  then show ?case by simp
next
  case (Cons e es)
  show ?case
  proof (cases "fst (call_setExpression env e s)")
    case None
    with Cons.prems have "fst (setExpressions env es (snd (call_setExpression env e s))) = None"
      by (simp add: split_beta)
    with Cons.prems None show ?thesis
      using Cons.IH [of "snd (call_setExpression env e s)"]
      by (simp add: split_beta call_setExpression_calls)
  next
    case (Some x)
    with Cons.prems show ?thesis by (simp add: split_beta)
  qed
qed

lemma setExpressions_throw:
  "calculator s \<noteq> None \<Longrightarrow> fst (setExpressions env es s) = Some x \<Longrightarrow>
     \<exists>n<length es. calls (snd (setExpressions env es s))
       = calls s @ map (\<lambda>e. (CallSetExpression e, None)) (take n es)
           @ [(CallSetExpression (es ! n), Some x)]"
proof (induction es arbitrary: s)
  case Nil
  then show ?case by simp
next
  case (Cons e es)
  show ?case
  proof (cases "fst (call_setExpression env e s)")
    case None
    with Cons.prems
    have "fst (setExpressions env es (snd (call_setExpression env e s))) = Some x"
      by (simp add: split_beta)
    with Cons.prems Cons.IH [of "snd (call_setExpression env e s)"]
    obtain n where n: "n < length es"
      and c: "calls (snd (setExpressions env es (snd (call_setExpression env e s))))
         = calls (snd (call_setExpression env e s))
             @ map (\<lambda>e. (CallSetExpression e, None)) (take n es)
             @ [(CallSetExpression (es ! n), Some x)]"
      by auto
    have "calls (snd (setExpressions env (e # es) s))
       = calls s @ map (\<lambda>e. (CallSetExpression e, None)) (take (Suc n) (e # es))
           @ [(CallSetExpression ((e # es) ! Suc n), Some x)]"
      using None Cons.prems c by (simp add: split_beta call_setExpression_calls)
    with n show ?thesis by (intro exI [of _ "Suc n"]) simp
  next
    case (Some y)
    with Cons.prems have "y = x" by (simp add: split_beta)
    with Some Cons.prems
    have "calls (snd (setExpressions env (e # es) s))
       = calls s @ map (\<lambda>e. (CallSetExpression e, None)) (take 0 (e # es))
           @ [(CallSetExpression ((e # es) ! 0), Some x)]"
      by (simp add: split_beta call_setExpression_calls)
    then show ?thesis by (intro exI [of _ 0]) simp
  qed
qed

lemma addUnits_trace:
  "calculator s \<noteq> None \<Longrightarrow>
     \<exists>rs. length rs = length us
       \<and> calls (addUnits env us i s) = calls s @ zip (map CallSetExpression us) rs
       \<and> console (addUnits env us i s)
           = console s @ map2 unit_line [i + 1 ..< i + 1 + length us] rs"
proof (induction us arbitrary: i s)
  case Nil
  then show ?case by simp
next
  case (Cons u us)
  let ?r = "fst (call_setExpression env u s)"
  let ?s1 = "case call_setExpression env u s of
          (None, s') \<Rightarrow>
            console_log (''Unit '' @ show_int (int i + 1) @ '' added successfully'') [] s'
        | (Some e, s') \<Rightarrow>
            console_error (''Unit '' @ show_int (int i + 1) @ '' failed:'') [e] s'"
  have c1: "calls ?s1 = calls s @ [(CallSetExpression u, ?r)]"
    using Cons.prems by (simp add: split_beta call_setExpression_calls split: option.split)
  have l1: "console ?s1 = console s @ [unit_line (i + 1) ?r]"
    by (simp add: split_beta unit_line_def add.commute split: option.split)
  have k1: "calculator ?s1 \<noteq> None"
    using Cons.prems by (cases ?r) (simp_all add: split_beta)
  from Cons.IH [OF k1, of "i + 1"] obtain rs where rs: "length rs = length us"
    and c: "calls (addUnits env us (i + 1) ?s1) = calls ?s1 @ zip (map CallSetExpression us) rs"
    and l: "console (addUnits env us (i + 1) ?s1)
           = console ?s1 @ map2 unit_line [i + 1 + 1 ..< i + 1 + 1 + length us] rs"
    by blast
  have u: "[i + 1 ..< i + 1 + length (u # us)] = (i + 1) # [i + 1 + 1 ..< i + 1 + 1 + length us]"
    by (subst upt_conv_Cons) simp_all
  have "length (?r # rs) = length (u # us)
       \<and> calls (addUnits env (u # us) i s) = calls s @ zip (map CallSetExpression (u # us)) (?r # rs)
       \<and> console (addUnits env (u # us) i s)
           = console s @ map2 unit_line [i + 1 ..< i + 1 + length (u # us)] (?r # rs)"
    unfolding u using rs c l c1 l1 by simp
  then show ?case by blast
qed

lemma length_lists [simp]: "length coreExpressions = 6" "length UNIT_DEFINITIONS = 8"
  by (simp_all add: coreExpressions_def UNIT_DEFINITIONS_def)

lemma new_calls_append: "calls s' = calls s @ cs \<Longrightarrow> new_calls s s' = cs"
  by (simp add: new_calls_def)

lemma new_lines_append: "console s' = console s @ ls \<Longrightarrow> new_lines s s' = ls"
  by (simp add: new_lines_def)

lemma addUnitDefinitions_trace:
  assumes "calculator s \<noteq> None"
  shows "\<exists>rs. length rs = 8
       \<and> calls (addUnitDefinitions env s) = calls s @ zip (map CallSetExpression UNIT_DEFINITIONS) rs
       \<and> console (addUnitDefinitions env s) = console s @ map2 unit_line [1 ..< 9] rs"
  using addUnits_trace [OF assms, of UNIT_DEFINITIONS env 0]
  by (simp add: addUnitDefinitions_def)

text \<open>
  Claim C7. In every run of the unit-definition loop on a manager that holds a widget,
  \<^verbatim>\<open>setExpression\<close> is called exactly eight times, once for each entry of
  \<^verbatim>\<open>UNIT_DEFINITIONS\<close> in the declared order, whatever each call does: a call that throws
  does not stop the loop. Every attempt leaves its own console line, a success line or a
  failure line carrying the thrown value, numbered from 1 to 8.
\<close>

theorem addUnitDefinitions_attempts_all:
  assumes "calculator s = Some w"
  shows "calls (addUnitDefinitions env s) = calls s @ new_calls s (addUnitDefinitions env s)
     \<and> map fst (new_calls s (addUnitDefinitions env s)) = map CallSetExpression UNIT_DEFINITIONS
     \<and> length (new_calls s (addUnitDefinitions env s)) = 8
     \<and> new_lines s (addUnitDefinitions env s)
         = map2 unit_line [1 ..< 9] (map snd (new_calls s (addUnitDefinitions env s)))"
proof -
  from assms have "calculator s \<noteq> None" by simp
  from addUnitDefinitions_trace [OF this, of env] obtain rs where rs: "length rs = 8"
    and c: "calls (addUnitDefinitions env s)
              = calls s @ zip (map CallSetExpression UNIT_DEFINITIONS) rs"
    and l: "console (addUnitDefinitions env s) = console s @ map2 unit_line [1 ..< 9] rs"
    by blast
  have n: "new_calls s (addUnitDefinitions env s) = zip (map CallSetExpression UNIT_DEFINITIONS) rs"
    using c by (rule new_calls_append)
  have m: "new_lines s (addUnitDefinitions env s) = map2 unit_line [1 ..< 9] rs"
    using l by (rule new_lines_append)
  show ?thesis unfolding n m using rs c by simp
qed

theorem addUnitDefinitions_attempts_all_witness:
  "calculator mounted = Some blank_widget
   \<and> map snd (new_calls mounted (addUnitDefinitions no_nano_env mounted))
       = [None, None, Some rejected, None, None, None, None, None]
   \<and> map fst (new_calls mounted (addUnitDefinitions no_nano_env mounted))
       = map CallSetExpression UNIT_DEFINITIONS
   \<and> length (new_calls mounted (addUnitDefinitions no_nano_env mounted)) = 8"
proof -
  have h: "calculator mounted = Some blank_widget"
    by code_simp
  have r: "map snd (new_calls mounted (addUnitDefinitions no_nano_env mounted))
       = [None, None, Some rejected, None, None, None, None, None]"
    by code_simp
  show ?thesis
    using h r addUnitDefinitions_attempts_all [OF h, of no_nano_env] by simp
qed

lemma addExpressions_callback_ok:
  "core_outcome env s = None \<Longrightarrow>
     addExpressions_callback env s
       = (console_log ''All expressions added successfully!'' []
            (addUnitDefinitions env (after_core env s)))
         \<lparr>isFullyReady := True,
          window := (window (addUnitDefinitions env (after_core env s)))
                      (''calculatorFullyReady'' \<mapsto> JBool True)\<rparr>"
  by (simp add: addExpressions_callback_def addExpressions_try_def expressions_entry_def
      core_outcome_def after_core_def split_beta Let_def)

lemma addExpressions_callback_throw:
  "core_outcome env s = Some x \<Longrightarrow>
     addExpressions_callback env s
       = console_error ''Error adding expressions:'' [x] (after_core env s)"
  by (simp add: addExpressions_callback_def addExpressions_try_def expressions_entry_def
      core_outcome_def after_core_def split_beta)

lemma after_core_throw:
  "calculator s \<noteq> None \<Longrightarrow> core_outcome env s = Some x \<Longrightarrow>
     \<exists>n<6. calls (after_core env s)
       = calls s @ map (\<lambda>e. (CallSetExpression e, None)) (take n coreExpressions)
           @ [(CallSetExpression (coreExpressions ! n), Some x)]"
  using setExpressions_throw [of "expressions_entry s" env coreExpressions x]
  by (simp add: core_outcome_def after_core_def addCoreExpressions_def expressions_entry_def)

lemma after_core_ok:
  "calculator s \<noteq> None \<Longrightarrow> core_outcome env s = None \<Longrightarrow>
     calls (after_core env s)
       = calls s @ map (\<lambda>e. (CallSetExpression e, None)) coreExpressions"
  using setExpressions_ok [of "expressions_entry s" env coreExpressions]
  by (simp add: core_outcome_def after_core_def addCoreExpressions_def expressions_entry_def)

lemma after_core_calculator [simp]:
  "(calculator (after_core env s) = None) = (calculator s = None)"
  by (simp add: after_core_def addCoreExpressions_def expressions_entry_def)

lemma widget_after_append:
  "widget_after env (xs @ ys) w = widget_after env ys (widget_after env xs w)"
  by (induction xs arbitrary: w) simp_all

lemma returns_append:
  "returns env (xs @ ys) w = returns env xs w @ returns env ys (widget_after env xs w)"
  by (induction xs arbitrary: w) simp_all

lemma length_returns [simp]: "length (returns env es w) = length es"
  by (induction es arbitrary: w) simp_all

lemma call_setExpression_widget:
  "calculator s = Some w \<Longrightarrow>
     fst (call_setExpression env e s) = fst (setExpression env e w)
     \<and> calculator (snd (call_setExpression env e s)) = Some (snd (setExpression env e w))
     \<and> calls (snd (call_setExpression env e s))
         = calls s @ [(CallSetExpression e, fst (setExpression env e w))]"
  by (simp add: call_setExpression_def split_beta)

lemma setExpressions_widget:
  "calculator s = Some w \<Longrightarrow> fst (setExpressions env es s) = None \<Longrightarrow>
     calculator (snd (setExpressions env es s)) = Some (widget_after env es w)
     \<and> returns env es w = map (\<lambda>e. None) es"
proof (induction es arbitrary: s w)
  case Nil
  then show ?case by simp
next
  case (Cons e es)
  note w = call_setExpression_widget [OF Cons.prems(1), of env e]
  show ?case
  proof (cases "fst (call_setExpression env e s)")
    case None
    with Cons.prems have "fst (setExpressions env es (snd (call_setExpression env e s))) = None"
      by (simp add: split_beta)
    from Cons.IH [OF _ this, of "snd (setExpression env e w)"] w None
    show ?thesis by (simp add: split_beta)
  next
    case (Some x)
    with Cons.prems show ?thesis by (simp add: split_beta)
  qed
qed

lemma unit_step:
  assumes "calculator s = Some w"
  shows "calculator (case call_setExpression env u s of
            (None, s') \<Rightarrow> console_log m1 [] s'
          | (Some e, s') \<Rightarrow> console_error m2 [e] s') = Some (snd (setExpression env u w))"
    and "calls (case call_setExpression env u s of
            (None, s') \<Rightarrow> console_log m1 [] s'
          | (Some e, s') \<Rightarrow> console_error m2 [e] s')
          = calls s @ [(CallSetExpression u, fst (setExpression env u w))]"
proof -
  note w = call_setExpression_widget [OF assms, of env u]
  show "calculator (case call_setExpression env u s of
            (None, s') \<Rightarrow> console_log m1 [] s'
          | (Some e, s') \<Rightarrow> console_error m2 [e] s') = Some (snd (setExpression env u w))"
    using w by (cases "fst (setExpression env u w)") (simp_all add: split_beta)
  show "calls (case call_setExpression env u s of
            (None, s') \<Rightarrow> console_log m1 [] s'
          | (Some e, s') \<Rightarrow> console_error m2 [e] s')
          = calls s @ [(CallSetExpression u, fst (setExpression env u w))]"
    using w by (cases "fst (setExpression env u w)") (simp_all add: split_beta)
qed

lemma addUnits_widget:
  "calculator s = Some w \<Longrightarrow>
     calculator (addUnits env us i s) = Some (widget_after env us w)
     \<and> calls (addUnits env us i s) = calls s @ zip (map CallSetExpression us) (returns env us w)"
proof (induction us arbitrary: i s w)
  case Nil
  then show ?case by simp
next
  case (Cons u us)
  note k = unit_step(1) [OF Cons.prems, where env = env and u = u]
  note c = unit_step(2) [OF Cons.prems, where env = env and u = u]
  show ?case
    unfolding addUnits.simps
    using Cons.IH [OF k, of "i + 1"] by (simp only: c) simp
qed

lemma zip_snd_None:
  "length rs = length xs \<Longrightarrow> \<forall>c\<in>set (zip xs rs). snd c = None \<Longrightarrow>
     rs = map (\<lambda>e. None) xs"
  by (induction xs rs rule: list_induct2') auto

text \<open>
  Claim C1. If no \<^verbatim>\<open>setExpression\<close> call made during the expression callback throws,
  then the callback has registered exactly the 6 core expressions followed by the 8 unit
  definitions on the widget, each list in its declared order: these are the calls made, each
  of them returned normally on the widget, the widget the manager holds afterwards is the
  one those fourteen calls produced, and \<^verbatim>\<open>isFullyReady\<close> and
  \<^verbatim>\<open>window.calculatorFullyReady\<close> are true.
\<close>

theorem expressions_registered:
  assumes "calculator s = Some w"
    and "\<forall>c\<in>set (new_calls s (addExpressions_callback env s)). snd c = None"
  shows "calls (addExpressions_callback env s)
           = calls s @ map (\<lambda>e. (CallSetExpression e, None)) (coreExpressions @ UNIT_DEFINITIONS)
     \<and> length coreExpressions = 6 \<and> length UNIT_DEFINITIONS = 8
     \<and> calculator (addExpressions_callback env s)
           = Some (widget_after env (coreExpressions @ UNIT_DEFINITIONS) w)
     \<and> returns env (coreExpressions @ UNIT_DEFINITIONS) w
           = map (\<lambda>e. None) (coreExpressions @ UNIT_DEFINITIONS)
     \<and> isFullyReady (addExpressions_callback env s)
     \<and> window (addExpressions_callback env s) ''calculatorFullyReady'' = Some (JBool True)"
proof -
  from assms(1) have k0: "calculator s \<noteq> None" by simp
  show ?thesis
  proof (cases "core_outcome env s")
    case (Some x)
    from after_core_throw [OF k0 Some]
    obtain n where "calls (after_core env s)
         = calls s @ map (\<lambda>e. (CallSetExpression e, None)) (take n coreExpressions)
           @ [(CallSetExpression (coreExpressions ! n), Some x)]"
      by blast
    then have "new_calls s (addExpressions_callback env s)
         = map (\<lambda>e. (CallSetExpression e, None)) (take n coreExpressions)
           @ [(CallSetExpression (coreExpressions ! n), Some x)]"
      by (intro new_calls_append) (simp add: addExpressions_callback_throw [OF Some])
    with assms(2) show ?thesis by simp
  next
    case None
    note f = addExpressions_callback_ok [OF None]
    let ?w1 = "widget_after env coreExpressions w"
    have k: "calculator (expressions_entry s) = Some w"
      using assms(1) by (simp add: expressions_entry_def)
    have o: "fst (setExpressions env coreExpressions (expressions_entry s)) = None"
      using None by (simp add: core_outcome_def addCoreExpressions_def)
    from setExpressions_widget [OF k o]
    have k1: "calculator (after_core env s) = Some ?w1"
      and r1: "returns env coreExpressions w = map (\<lambda>e. None) coreExpressions"
      by (simp_all add: after_core_def addCoreExpressions_def)
    from addUnits_widget [OF k1, of env UNIT_DEFINITIONS 0]
    have k2: "calculator (addUnitDefinitions env (after_core env s))
                = Some (widget_after env UNIT_DEFINITIONS ?w1)"
      and c2: "calls (addUnitDefinitions env (after_core env s))
          = calls (after_core env s)
              @ zip (map CallSetExpression UNIT_DEFINITIONS) (returns env UNIT_DEFINITIONS ?w1)"
      by (simp_all add: addUnitDefinitions_def)
    have c: "calls (addExpressions_callback env s)
        = calls s @ (map (\<lambda>e. (CallSetExpression e, None)) coreExpressions
            @ zip (map CallSetExpression UNIT_DEFINITIONS) (returns env UNIT_DEFINITIONS ?w1))"
      by (simp add: f c2 after_core_ok [OF k0 None])
    then have "new_calls s (addExpressions_callback env s)
        = map (\<lambda>e. (CallSetExpression e, None)) coreExpressions
            @ zip (map CallSetExpression UNIT_DEFINITIONS) (returns env UNIT_DEFINITIONS ?w1)"
      by (rule new_calls_append)
    with assms(2)
    have "\<forall>c\<in>set (zip (map CallSetExpression UNIT_DEFINITIONS)
                       (returns env UNIT_DEFINITIONS ?w1)). snd c = None"
      by simp
    then have "returns env UNIT_DEFINITIONS ?w1
                 = map (\<lambda>e. None) (map CallSetExpression UNIT_DEFINITIONS)"
      by (intro zip_snd_None) simp_all
    then have r2: "returns env UNIT_DEFINITIONS ?w1 = map (\<lambda>e. None) UNIT_DEFINITIONS"
      by simp
    have z: "zip (map CallSetExpression UNIT_DEFINITIONS) (map (\<lambda>e. None) UNIT_DEFINITIONS)
               = map (\<lambda>e. (CallSetExpression e, None)) UNIT_DEFINITIONS"
      by (simp add: zip_map_map zip_same_conv_map)
    have kf: "calculator (addExpressions_callback env s)
                = Some (widget_after env (coreExpressions @ UNIT_DEFINITIONS) w)"
      by (simp add: f k2 widget_after_append)
    have rf: "returns env (coreExpressions @ UNIT_DEFINITIONS) w
           = map (\<lambda>e. None) (coreExpressions @ UNIT_DEFINITIONS)"
      by (simp add: returns_append r1 r2)
    have cf: "calls (addExpressions_callback env s)
           = calls s @ map (\<lambda>e. (CallSetExpression e, None)) (coreExpressions @ UNIT_DEFINITIONS)"
      using c by (simp add: r2 z)
    from cf kf rf show ?thesis by (simp add: f)
  qed
qed

theorem expressions_registered_witness:
  "calculator mounted = Some blank_widget
   \<and> calls (addExpressions_callback plain_env mounted)
       = calls mounted
           @ map (\<lambda>e. (CallSetExpression e, None)) (coreExpressions @ UNIT_DEFINITIONS)
   \<and> calculator (addExpressions_callback plain_env mounted)
       = Some (blank_widget\<lparr>registered := coreExpressions @ UNIT_DEFINITIONS\<rparr>)
   \<and> isFullyReady (addExpressions_callback plain_env mounted)"
proof -
  have h: "calculator mounted = Some blank_widget"
    by code_simp
  have o: "core_outcome plain_env mounted = None"
    by code_simp
  have "\<forall>c\<in>set (new_calls mounted (addUnitDefinitions plain_env (after_core plain_env mounted))).
          snd c = None"
    by code_simp
  then have r: "\<forall>c\<in>set (new_calls mounted (addExpressions_callback plain_env mounted)).
          snd c = None"
    by (simp add: addExpressions_callback_ok [OF o] new_calls_def)
  have v: "widget_after plain_env (coreExpressions @ UNIT_DEFINITIONS) blank_widget
             = blank_widget\<lparr>registered := coreExpressions @ UNIT_DEFINITIONS\<rparr>"
    by code_simp
  show ?thesis
    using h v expressions_registered [OF h r] by simp
qed

section \<open>Settings phase: what reaches the widget\<close>



lemma trySettings_calculator [simp]:
  "(calculator (trySettings env xs s) = None) = (calculator s = None)"
  by (induction env xs s rule: trySettings.induct)
     (simp_all add: split_beta split: option.split)



text \<open>The four ways through the try block of the settings callback.\<close>

lemma settings_batch_throws:
  assumes "calculator s = Some w" and "updateSettings env DEFAULT_SETTINGS w = (Some e, w1)"
  shows "applySettings_callback env s =
           addExpressions (applySettingsIndividually env
             (console_error ''Error applying settings:'' [e]
                ((settings_entry s)\<lparr>calculator := Some w1,
                    calls := calls s @ [(CallUpdateSettings DEFAULT_SETTINGS, Some e)]\<rparr>)))"
    and "\<not> settings_succeed env s"
  using assms
  by (simp_all add: applySettings_callback_def applySettings_try_def call_updateSettings_def
      settings_entry_def settings_succeed_def console_log_def)

lemma settings_bounds_throw:
  assumes "calculator s = Some w" and "updateSettings env DEFAULT_SETTINGS w = (None, w1)"
    and "setMathBounds env DEFAULT_BOUNDS w1 = (Some e, w2)"
  shows "applySettings_callback env s =
           addExpressions (applySettingsIndividually env
             (console_error ''Error applying settings:'' [e]
                ((settings_entry s)\<lparr>calculator := Some w2,
                    calls := calls s @ [(CallUpdateSettings DEFAULT_SETTINGS, None),
                                        (CallSetMathBounds DEFAULT_BOUNDS, Some e)]\<rparr>)))"
    and "\<not> settings_succeed env s"
  using assms
  by (simp_all add: applySettings_callback_def applySettings_try_def call_updateSettings_def
      call_setMathBounds_def settings_entry_def settings_succeed_def console_log_def)

lemma settings_status_throws:
  assumes "calculator s = Some w" and "updateSettings env DEFAULT_SETTINGS w = (None, w1)"
    and "setMathBounds env DEFAULT_BOUNDS w1 = (None, w2)"
    and "settings_of env w2 = None"
  shows "applySettings_callback env s =
           addExpressions (applySettingsIndividually env
             (console_error ''Error applying settings:'' [TypeError ''degreeMode'']
                ((settings_entry s)\<lparr>calculator := Some w2,
                    calls := calls s @ [(CallUpdateSettings DEFAULT_SETTINGS, None),
                                        (CallSetMathBounds DEFAULT_BOUNDS, None)],
                    console := console (settings_entry s)
                      @ [(LogLevel, ''setMathBounds called with bounds: ''
                            @ bounds_text DEFAULT_BOUNDS, []),
                         (LogLevel, ''Settings applied successfully!'', [])]\<rparr>)))"
    and "\<not> settings_succeed env s"
  using assms
  by (simp_all add: applySettings_callback_def applySettings_try_def call_updateSettings_def
      call_setMathBounds_def settings_entry_def settings_succeed_def console_log_def
      logSettingsStatus_def read_settings_def)

lemma settings_all_pass:
  assumes "calculator s = Some w" and "updateSettings env DEFAULT_SETTINGS w = (None, w1)"
    and "setMathBounds env DEFAULT_BOUNDS w1 = (None, w2)"
    and "settings_of env w2 = Some cur"
  shows "applySettings_callback env s =
           addExpressions
             ((settings_entry s)\<lparr>calculator := Some w2,
                 calls := calls s @ [(CallUpdateSettings DEFAULT_SETTINGS, None),
                                     (CallSetMathBounds DEFAULT_BOUNDS, None)],
                 console := console (settings_entry s)
                   @ [(LogLevel, ''setMathBounds called with bounds: ''
                         @ bounds_text DEFAULT_BOUNDS, []),
                      (LogLevel, ''Settings applied successfully!'', []),
                      (LogLevel, ''Degree Mode:'', [get_prop cur ''degreeMode'']),
                      (LogLevel, ''X Axis Scale:'', [get_prop cur ''xAxisScale'']),
                      (LogLevel, ''Y Axis Scale:'', [get_prop cur ''yAxisScale'']),
                      (LogLevel, ''Math bounds should now be: ''
                         @ bounds_text DEFAULT_BOUNDS, [])],
                 isReady := True,
                 window := (window s)(''calculatorReady'' \<mapsto> JBool True)\<rparr>)"
    and "settings_succeed env s"
  using assms
  by (simp_all add: applySettings_callback_def applySettings_try_def call_updateSettings_def
      call_setMathBounds_def settings_entry_def settings_succeed_def console_log_def
      logSettingsStatus_def read_settings_def Let_def)



lemma fallback_exact:
  assumes "calculator s0 = Some w1"
    and "updateSettings env [(''degreeMode'', JBool False)] w1 = (r1, w2)"
    and "updateSettings env [(''xAxisScale'', JStr ''logarithmic'')] w2 = (r2, w3)"
    and "setMathBounds env DEFAULT_BOUNDS w3 = (r3, w4)"
  shows "calls (addExpressions (applySettingsIndividually env (console_error m a s0)))
           = calls s0 @ [(CallUpdateSettings [(''degreeMode'', JBool False)], r1),
                        (CallUpdateSettings [(''xAxisScale'', JStr ''logarithmic'')], r2),
                        (CallSetMathBounds DEFAULT_BOUNDS, r3)]"
    and "console (addExpressions (applySettingsIndividually env (console_error m a s0)))
           = console s0 @ [(ErrorLevel, m, a),
                          setting_line ''Degree mode'' r1,
                          setting_line ''X-axis logarithmic scale'' r2,
                          bounds_line r3]"
    and "calculator (addExpressions (applySettingsIndividually env (console_error m a s0)))
           = Some w4"
  using assms
  by (cases r1; cases r2; cases r3;
      simp add: applySettingsIndividually_def settingsToTry_def call_updateSettings_def
        call_setMathBounds_def console_log_def console_error_def addExpressions_def
        setTimeout_def setting_line_def bounds_line_def)+

text \<open>
  Claim C5. If the batch \<^verbatim>\<open>updateSettings(DEFAULT_SETTINGS)\<close> call throws, the settings
  callback makes exactly three more calls on the widget, in this order:
  \<^verbatim>\<open>updateSettings\<close> for degree mode, \<^verbatim>\<open>updateSettings\<close> for the x-axis scale, and
  \<^verbatim>\<open>setMathBounds\<close>. Each is made once, on the widget the previous call left and whatever
  that call did, nothing else is called, and the manager ends up holding the widget the
  \<^verbatim>\<open>setMathBounds\<close> call left.
\<close>

theorem batch_failure_retries:
  assumes "calculator s = Some w"
    and "updateSettings env DEFAULT_SETTINGS w = (Some e, w1)"
    and "updateSettings env [(''degreeMode'', JBool False)] w1 = (r1, w2)"
    and "updateSettings env [(''xAxisScale'', JStr ''logarithmic'')] w2 = (r2, w3)"
    and "setMathBounds env DEFAULT_BOUNDS w3 = (r3, w4)"
  shows "calls (applySettings_callback env s)
           = calls s @ new_calls s (applySettings_callback env s)
     \<and> new_calls s (applySettings_callback env s)
           = [(CallUpdateSettings DEFAULT_SETTINGS, Some e),
              (CallUpdateSettings [(''degreeMode'', JBool False)], r1),
              (CallUpdateSettings [(''xAxisScale'', JStr ''logarithmic'')], r2),
              (CallSetMathBounds DEFAULT_BOUNDS, r3)]
     \<and> calculator (applySettings_callback env s) = Some w4"
proof -
  let ?s0 = "(settings_entry s)\<lparr>calculator := Some w1,
                    calls := calls s @ [(CallUpdateSettings DEFAULT_SETTINGS, Some e)]\<rparr>"
  have k: "calculator ?s0 = Some w1" by simp
  note fb = fallback_exact [OF k assms(3,4,5), of "''Error applying settings:''" "[e]"]
  have c: "calls (applySettings_callback env s)
       = calls s @ [(CallUpdateSettings DEFAULT_SETTINGS, Some e),
                    (CallUpdateSettings [(''degreeMode'', JBool False)], r1),
                    (CallUpdateSettings [(''xAxisScale'', JStr ''logarithmic'')], r2),
                    (CallSetMathBounds DEFAULT_BOUNDS, r3)]"
    unfolding settings_batch_throws(1) [OF assms(1,2)] fb(1) by simp
  have w: "calculator (applySettings_callback env s) = Some w4"
    unfolding settings_batch_throws(1) [OF assms(1,2)] by (rule fb(3))
  show ?thesis
    unfolding new_calls_append [OF c] using c w by simp
qed

theorem batch_failure_retries_witness:
  "calculator mounted = Some blank_widget
   \<and> updateSettings no_batch_env DEFAULT_SETTINGS blank_widget = (Some rejected, blank_widget)
   \<and> new_calls mounted (applySettings_callback no_batch_env mounted)
       = [(CallUpdateSettings DEFAULT_SETTINGS, Some rejected),
          (CallUpdateSettings [(''degreeMode'', JBool False)], None),
          (CallUpdateSettings [(''xAxisScale'', JStr ''logarithmic'')], None),
          (CallSetMathBounds DEFAULT_BOUNDS, None)]
   \<and> calculator (applySettings_callback no_batch_env mounted)
       = Some (blank_widget\<lparr>applied_settings :=
                  [(''xAxisScale'', JStr ''logarithmic''), (''degreeMode'', JBool False)],
                math_bounds := Some DEFAULT_BOUNDS\<rparr>)"
proof -
  have h: "calculator mounted = Some blank_widget"
    by code_simp
  have u: "updateSettings no_batch_env DEFAULT_SETTINGS blank_widget = (Some rejected, blank_widget)"
    by code_simp
  have d: "updateSettings no_batch_env [(''degreeMode'', JBool False)] blank_widget
             = (None, blank_widget\<lparr>applied_settings := [(''degreeMode'', JBool False)]\<rparr>)"
    by code_simp
  have x: "updateSettings no_batch_env [(''xAxisScale'', JStr ''logarithmic'')]
             (blank_widget\<lparr>applied_settings := [(''degreeMode'', JBool False)]\<rparr>)
             = (None, blank_widget\<lparr>applied_settings :=
                  [(''xAxisScale'', JStr ''logarithmic''), (''degreeMode'', JBool False)]\<rparr>)"
    by code_simp
  have b: "setMathBounds no_batch_env DEFAULT_BOUNDS
             (blank_widget\<lparr>applied_settings :=
                  [(''xAxisScale'', JStr ''logarithmic''), (''degreeMode'', JBool False)]\<rparr>)
             = (None, blank_widget\<lparr>applied_settings :=
                  [(''xAxisScale'', JStr ''logarithmic''), (''degreeMode'', JBool False)],
                math_bounds := Some DEFAULT_BOUNDS\<rparr>)"
    by code_simp
  show ?thesis
    using h u batch_failure_retries [OF h u d x b] by simp
qed

text \<open>
  Claim C3 as stated fails. With a widget that rejects every \<^verbatim>\<open>setMathBounds\<close> call, the
  settings callback calls \<^verbatim>\<open>setMathBounds\<close> twice: the throw of the first call lands in
  the \<^verbatim>\<open>catch\<close> of the batch, which runs \<^verbatim>\<open>applySettingsIndividually\<close>, and that calls
  \<^verbatim>\<open>setMathBounds\<close> again.
\<close>

theorem bounds_retried_counterexample:
  "calculator mounted = Some blank_widget
   \<and> new_calls mounted (applySettings_callback no_bounds_env mounted)
       = [(CallUpdateSettings DEFAULT_SETTINGS, None),
          (CallSetMathBounds DEFAULT_BOUNDS, Some rejected),
          (CallUpdateSettings [(''degreeMode'', JBool False)], None),
          (CallUpdateSettings [(''xAxisScale'', JStr ''logarithmic'')], None),
          (CallSetMathBounds DEFAULT_BOUNDS, Some rejected)]"
  by code_simp

text \<open>
  Claim C3, amended. The calls and console lines of the settings callback are fixed by what
  the widget does, in four ways. A throw of the batch \<^verbatim>\<open>setMathBounds\<close> call is logged and
  followed by the individual fallback, which calls \<^verbatim>\<open>setMathBounds\<close> exactly once more.
  A throw of the fallback's \<^verbatim>\<open>setMathBounds\<close> call is logged only, by the last console
  line, and nothing is called after it; this holds however the fallback was entered: by a
  throw of the batch \<^verbatim>\<open>updateSettings\<close>, of the batch \<^verbatim>\<open>setMathBounds\<close>, or of the status
  log. On the path without a throw \<^verbatim>\<open>setMathBounds\<close> is called once. It is never called
  a third time.
\<close>

theorem bounds_failure_retried_once:
  assumes "calculator s = Some w"
    and "updateSettings env DEFAULT_SETTINGS w = (r0, w1)"
    and "setMathBounds env DEFAULT_BOUNDS w1 = (rb, wb)"
    and "updateSettings env [(''degreeMode'', JBool False)] (if r0 = None then wb else w1)
           = (r1, w2)"
    and "updateSettings env [(''xAxisScale'', JStr ''logarithmic'')] w2 = (r2, w3)"
    and "setMathBounds env DEFAULT_BOUNDS w3 = (r3, w4)"
  shows "(r0 = None \<and> rb = Some e \<longrightarrow>
            new_calls s (applySettings_callback env s)
              = [(CallUpdateSettings DEFAULT_SETTINGS, None),
                 (CallSetMathBounds DEFAULT_BOUNDS, Some e),
                 (CallUpdateSettings [(''degreeMode'', JBool False)], r1),
                 (CallUpdateSettings [(''xAxisScale'', JStr ''logarithmic'')], r2),
                 (CallSetMathBounds DEFAULT_BOUNDS, r3)]
            \<and> new_lines s (applySettings_callback env s)
              = [(LogLevel, ''Applying calculator settings...'', []),
                 (ErrorLevel, ''Error applying settings:'', [e]),
                 setting_line ''Degree mode'' r1,
                 setting_line ''X-axis logarithmic scale'' r2,
                 bounds_line r3]
            \<and> calculator (applySettings_callback env s) = Some w4)
       \<and> (r0 = Some e \<longrightarrow>
            new_calls s (applySettings_callback env s)
              = [(CallUpdateSettings DEFAULT_SETTINGS, Some e),
                 (CallUpdateSettings [(''degreeMode'', JBool False)], r1),
                 (CallUpdateSettings [(''xAxisScale'', JStr ''logarithmic'')], r2),
                 (CallSetMathBounds DEFAULT_BOUNDS, r3)]
            \<and> new_lines s (applySettings_callback env s)
              = [(LogLevel, ''Applying calculator settings...'', []),
                 (ErrorLevel, ''Error applying settings:'', [e]),
                 setting_line ''Degree mode'' r1,
                 setting_line ''X-axis logarithmic scale'' r2,
                 bounds_line r3]
            \<and> calculator (applySettings_callback env s) = Some w4)
       \<and> (r0 = None \<and> rb = None \<and> settings_of env wb = None \<longrightarrow>
            new_calls s (applySettings_callback env s)
              = [(CallUpdateSettings DEFAULT_SETTINGS, None),
                 (CallSetMathBounds DEFAULT_BOUNDS, None),
                 (CallUpdateSettings [(''degreeMode'', JBool False)], r1),
                 (CallUpdateSettings [(''xAxisScale'', JStr ''logarithmic'')], r2),
                 (CallSetMathBounds DEFAULT_BOUNDS, r3)]
            \<and> new_lines s (applySettings_callback env s)
              = [(LogLevel, ''Applying calculator settings...'', []),
                 (LogLevel, ''setMathBounds called with bounds: ''
                    @ bounds_text DEFAULT_BOUNDS, []),
                 (LogLevel, ''Settings applied successfully!'', []),
                 (ErrorLevel, ''Error applying settings:'', [TypeError ''degreeMode'']),
                 setting_line ''Degree mode'' r1,
                 setting_line ''X-axis logarithmic scale'' r2,
                 bounds_line r3]
            \<and> calculator (applySettings_callback env s) = Some w4)
       \<and> (r0 = None \<and> rb = None \<and> settings_of env wb \<noteq> None \<longrightarrow>
            new_calls s (applySettings_callback env s)
              = [(CallUpdateSettings DEFAULT_SETTINGS, None),
                 (CallSetMathBounds DEFAULT_BOUNDS, None)]
            \<and> calculator (applySettings_callback env s) = Some wb)"
proof -
  have A: "new_calls s (applySettings_callback env s)
              = [(CallUpdateSettings DEFAULT_SETTINGS, None),
                 (CallSetMathBounds DEFAULT_BOUNDS, Some e),
                 (CallUpdateSettings [(''degreeMode'', JBool False)], r1),
                 (CallUpdateSettings [(''xAxisScale'', JStr ''logarithmic'')], r2),
                 (CallSetMathBounds DEFAULT_BOUNDS, r3)]
            \<and> new_lines s (applySettings_callback env s)
              = [(LogLevel, ''Applying calculator settings...'', []),
                 (ErrorLevel, ''Error applying settings:'', [e]),
                 setting_line ''Degree mode'' r1,
                 setting_line ''X-axis logarithmic scale'' r2,
                 bounds_line r3]
            \<and> calculator (applySettings_callback env s) = Some w4"
    if r: "r0 = None" "rb = Some e"
  proof -
    let ?s0 = "(settings_entry s)\<lparr>calculator := Some wb,
                    calls := calls s @ [(CallUpdateSettings DEFAULT_SETTINGS, None),
                                        (CallSetMathBounds DEFAULT_BOUNDS, Some e)]\<rparr>"
    have k: "calculator ?s0 = Some wb" by simp
    note fb = fallback_exact [OF k assms(4) [unfolded r, simplified] assms(5,6),
        of "''Error applying settings:''" "[e]"]
    note cb = settings_bounds_throw(1) [OF assms(1) assms(2) [unfolded r] assms(3) [unfolded r]]
    have c: "calls (applySettings_callback env s) = calls s @
               [(CallUpdateSettings DEFAULT_SETTINGS, None),
                 (CallSetMathBounds DEFAULT_BOUNDS, Some e),
                 (CallUpdateSettings [(''degreeMode'', JBool False)], r1),
                 (CallUpdateSettings [(''xAxisScale'', JStr ''logarithmic'')], r2),
                 (CallSetMathBounds DEFAULT_BOUNDS, r3)]"
      unfolding cb fb(1) by simp
    have l: "console (applySettings_callback env s) = console s @
               [(LogLevel, ''Applying calculator settings...'', []),
                 (ErrorLevel, ''Error applying settings:'', [e]),
                 setting_line ''Degree mode'' r1,
                 setting_line ''X-axis logarithmic scale'' r2,
                 bounds_line r3]"
      unfolding cb fb(2) by (simp add: settings_entry_def)
    have w: "calculator (applySettings_callback env s) = Some w4"
      unfolding cb by (rule fb(3))
    show ?thesis
      unfolding new_calls_append [OF c] new_lines_append [OF l] using w by simp
  qed
  have B: "new_calls s (applySettings_callback env s)
              = [(CallUpdateSettings DEFAULT_SETTINGS, Some e),
                 (CallUpdateSettings [(''degreeMode'', JBool False)], r1),
                 (CallUpdateSettings [(''xAxisScale'', JStr ''logarithmic'')], r2),
                 (CallSetMathBounds DEFAULT_BOUNDS, r3)]
            \<and> new_lines s (applySettings_callback env s)
              = [(LogLevel, ''Applying calculator settings...'', []),
                 (ErrorLevel, ''Error applying settings:'', [e]),
                 setting_line ''Degree mode'' r1,
                 setting_line ''X-axis logarithmic scale'' r2,
                 bounds_line r3]
            \<and> calculator (applySettings_callback env s) = Some w4"
    if r: "r0 = Some e"
  proof -
    let ?s0 = "(settings_entry s)\<lparr>calculator := Some w1,
                    calls := calls s @ [(CallUpdateSettings DEFAULT_SETTINGS, Some e)]\<rparr>"
    have k: "calculator ?s0 = Some w1" by simp
    note fb = fallback_exact [OF k assms(4) [unfolded r, simplified] assms(5,6),
        of "''Error applying settings:''" "[e]"]
    note cb = settings_batch_throws(1) [OF assms(1) assms(2) [unfolded r]]
    have c: "calls (applySettings_callback env s) = calls s @
               [(CallUpdateSettings DEFAULT_SETTINGS, Some e),
                 (CallUpdateSettings [(''degreeMode'', JBool False)], r1),
                 (CallUpdateSettings [(''xAxisScale'', JStr ''logarithmic'')], r2),
                 (CallSetMathBounds DEFAULT_BOUNDS, r3)]"
      unfolding cb fb(1) by simp
    have l: "console (applySettings_callback env s) = console s @
               [(LogLevel, ''Applying calculator settings...'', []),
                 (ErrorLevel, ''Error applying settings:'', [e]),
                 setting_line ''Degree mode'' r1,
                 setting_line ''X-axis logarithmic scale'' r2,
                 bounds_line r3]"
      unfolding cb fb(2) by (simp add: settings_entry_def)
    have w: "calculator (applySettings_callback env s) = Some w4"
      unfolding cb by (rule fb(3))
    show ?thesis
      unfolding new_calls_append [OF c] new_lines_append [OF l] using w by simp
  qed
  have C: "new_calls s (applySettings_callback env s)
              = [(CallUpdateSettings DEFAULT_SETTINGS, None),
                 (CallSetMathBounds DEFAULT_BOUNDS, None),
                 (CallUpdateSettings [(''degreeMode'', JBool False)], r1),
                 (CallUpdateSettings [(''xAxisScale'', JStr ''logarithmic'')], r2),
                 (CallSetMathBounds DEFAULT_BOUNDS, r3)]
            \<and> new_lines s (applySettings_callback env s)
              = [(LogLevel, ''Applying calculator settings...'', []),
                 (LogLevel, ''setMathBounds called with bounds: ''
                    @ bounds_text DEFAULT_BOUNDS, []),
                 (LogLevel, ''Settings applied successfully!'', []),
                 (ErrorLevel, ''Error applying settings:'', [TypeError ''degreeMode'']),
                 setting_line ''Degree mode'' r1,
                 setting_line ''X-axis logarithmic scale'' r2,
                 bounds_line r3]
            \<and> calculator (applySettings_callback env s) = Some w4"
    if r: "r0 = None" "rb = None" and n: "settings_of env wb = None"
  proof -
    let ?s0 = "(settings_entry s)\<lparr>calculator := Some wb,
                    calls := calls s @ [(CallUpdateSettings DEFAULT_SETTINGS, None),
                                        (CallSetMathBounds DEFAULT_BOUNDS, None)],
                    console := console (settings_entry s)
                      @ [(LogLevel, ''setMathBounds called with bounds: ''
                            @ bounds_text DEFAULT_BOUNDS, []),
                         (LogLevel, ''Settings applied successfully!'', [])]\<rparr>"
    have k: "calculator ?s0 = Some wb" by simp
    note fb = fallback_exact [OF k assms(4) [unfolded r, simplified] assms(5,6),
        of "''Error applying settings:''" "[TypeError ''degreeMode'']"]
    note cb = settings_status_throws(1)
      [OF assms(1) assms(2) [unfolded r] assms(3) [unfolded r] n]
    have c: "calls (applySettings_callback env s) = calls s @
               [(CallUpdateSettings DEFAULT_SETTINGS, None),
                 (CallSetMathBounds DEFAULT_BOUNDS, None),
                 (CallUpdateSettings [(''degreeMode'', JBool False)], r1),
                 (CallUpdateSettings [(''xAxisScale'', JStr ''logarithmic'')], r2),
                 (CallSetMathBounds DEFAULT_BOUNDS, r3)]"
      unfolding cb fb(1) by simp
    have l: "console (applySettings_callback env s) = console s @
               [(LogLevel, ''Applying calculator settings...'', []),
                 (LogLevel, ''setMathBounds called with bounds: ''
                    @ bounds_text DEFAULT_BOUNDS, []),
                 (LogLevel, ''Settings applied successfully!'', []),
                 (ErrorLevel, ''Error applying settings:'', [TypeError ''degreeMode'']),
                 setting_line ''Degree mode'' r1,
                 setting_line ''X-axis logarithmic scale'' r2,
                 bounds_line r3]"
      unfolding cb fb(2) by (simp add: settings_entry_def)
    have w: "calculator (applySettings_callback env s) = Some w4"
      unfolding cb by (rule fb(3))
    show ?thesis
      unfolding new_calls_append [OF c] new_lines_append [OF l] using w by simp
  qed
  have D: "new_calls s (applySettings_callback env s)
              = [(CallUpdateSettings DEFAULT_SETTINGS, None),
                 (CallSetMathBounds DEFAULT_BOUNDS, None)]
            \<and> calculator (applySettings_callback env s) = Some wb"
    if r: "r0 = None" "rb = None" and n: "settings_of env wb \<noteq> None"
  proof -
    from n obtain cur where cur: "settings_of env wb = Some cur" by blast
    note cb = settings_all_pass(1)
      [OF assms(1) assms(2) [unfolded r] assms(3) [unfolded r] cur]
    have c: "calls (applySettings_callback env s) = calls s @
               [(CallUpdateSettings DEFAULT_SETTINGS, None),
                 (CallSetMathBounds DEFAULT_BOUNDS, None)]"
      unfolding cb by (simp add: addExpressions_def)
    have w: "calculator (applySettings_callback env s) = Some wb"
      unfolding cb by (simp add: addExpressions_def)
    show ?thesis
      unfolding new_calls_append [OF c] using w by simp
  qed
  show ?thesis
    by (rule conjI, rule impI, erule conjE, erule (1) A,
        rule conjI, rule impI, erule B,
        rule conjI, rule impI, (erule conjE)+, erule (2) C,
        rule impI, (erule conjE)+, erule (2) D)
qed

theorem bounds_failure_retried_once_witness:
  "calculator mounted = Some blank_widget
   \<and> new_calls mounted (applySettings_callback no_bounds_env mounted)
       = [(CallUpdateSettings DEFAULT_SETTINGS, None),
          (CallSetMathBounds DEFAULT_BOUNDS, Some rejected),
          (CallUpdateSettings [(''degreeMode'', JBool False)], None),
          (CallUpdateSettings [(''xAxisScale'', JStr ''logarithmic'')], None),
          (CallSetMathBounds DEFAULT_BOUNDS, Some rejected)]
   \<and> new_calls mounted (applySettings_callback no_batch_no_bounds_env mounted)
       = [(CallUpdateSettings DEFAULT_SETTINGS, Some rejected),
          (CallUpdateSettings [(''degreeMode'', JBool False)], None),
          (CallUpdateSettings [(''xAxisScale'', JStr ''logarithmic'')], None),
          (CallSetMathBounds DEFAULT_BOUNDS, Some rejected)]
   \<and> new_lines mounted (applySettings_callback no_batch_no_bounds_env mounted)
       = [(LogLevel, ''Applying calculator settings...'', []),
          (ErrorLevel, ''Error applying settings:'', [rejected]),
          setting_line ''Degree mode'' None,
          setting_line ''X-axis logarithmic scale'' None,
          bounds_line (Some rejected)]
   \<and> new_calls mounted (applySettings_callback no_status_env mounted)
       = [(CallUpdateSettings DEFAULT_SETTINGS, None),
          (CallSetMathBounds DEFAULT_BOUNDS, None),
          (CallUpdateSettings [(''degreeMode'', JBool False)], None),
          (CallUpdateSettings [(''xAxisScale'', JStr ''logarithmic'')], None),
          (CallSetMathBounds DEFAULT_BOUNDS, None)]
   \<and> new_calls mounted (applySettings_callback plain_env mounted)
       = [(CallUpdateSettings DEFAULT_SETTINGS, None),
          (CallSetMathBounds DEFAULT_BOUNDS, None)]"
proof -
  have h: "calculator mounted = Some blank_widget"
    by code_simp
  have b0: "updateSettings no_bounds_env DEFAULT_SETTINGS blank_widget = (None, snd (updateSettings no_bounds_env DEFAULT_SETTINGS blank_widget))"
    by code_simp
  have b1: "setMathBounds no_bounds_env DEFAULT_BOUNDS (snd (updateSettings no_bounds_env DEFAULT_SETTINGS blank_widget)) = (Some rejected, snd (setMathBounds no_bounds_env DEFAULT_BOUNDS (snd (updateSettings no_bounds_env DEFAULT_SETTINGS blank_widget))))"
    by code_simp
  have b2: "updateSettings no_bounds_env [(''degreeMode'', JBool False)] (if None = None then snd (setMathBounds no_bounds_env DEFAULT_BOUNDS (snd (updateSettings no_bounds_env DEFAULT_SETTINGS blank_widget))) else snd (updateSettings no_bounds_env DEFAULT_SETTINGS blank_widget)) = (None, snd (updateSettings no_bounds_env [(''degreeMode'', JBool False)] (snd (setMathBounds no_bounds_env DEFAULT_BOUNDS (snd (updateSettings no_bounds_env DEFAULT_SETTINGS blank_widget))))))"
    by code_simp
  have b3: "updateSettings no_bounds_env [(''xAxisScale'', JStr ''logarithmic'')] (snd (updateSettings no_bounds_env [(''degreeMode'', JBool False)] (snd (setMathBounds no_bounds_env DEFAULT_BOUNDS (snd (updateSettings no_bounds_env DEFAULT_SETTINGS blank_widget)))))) = (None, snd (updateSettings no_bounds_env [(''xAxisScale'', JStr ''logarithmic'')] (snd (updateSettings no_bounds_env [(''degreeMode'', JBool False)] (snd (setMathBounds no_bounds_env DEFAULT_BOUNDS (snd (updateSettings no_bounds_env DEFAULT_SETTINGS blank_widget))))))))"
    by code_simp
  have b4: "setMathBounds no_bounds_env DEFAULT_BOUNDS (snd (updateSettings no_bounds_env [(''xAxisScale'', JStr ''logarithmic'')] (snd (updateSettings no_bounds_env [(''degreeMode'', JBool False)] (snd (setMathBounds no_bounds_env DEFAULT_BOUNDS (snd (updateSettings no_bounds_env DEFAULT_SETTINGS blank_widget)))))))) = (Some rejected, snd (setMathBounds no_bounds_env DEFAULT_BOUNDS (snd (updateSettings no_bounds_env [(''xAxisScale'', JStr ''logarithmic'')] (snd (updateSettings no_bounds_env [(''degreeMode'', JBool False)] (snd (setMathBounds no_bounds_env DEFAULT_BOUNDS (snd (updateSettings no_bounds_env DEFAULT_SETTINGS blank_widget))))))))))"
    by code_simp
  have a0: "updateSettings no_batch_no_bounds_env DEFAULT_SETTINGS blank_widget = (Some rejected, snd (updateSettings no_batch_no_bounds_env DEFAULT_SETTINGS blank_widget))"
    by code_simp
  have a1: "setMathBounds no_batch_no_bounds_env DEFAULT_BOUNDS (snd (updateSettings no_batch_no_bounds_env DEFAULT_SETTINGS blank_widget)) = (Some rejected, snd (setMathBounds no_batch_no_bounds_env DEFAULT_BOUNDS (snd (updateSettings no_batch_no_bounds_env DEFAULT_SETTINGS blank_widget))))"
    by code_simp
  have a2: "updateSettings no_batch_no_bounds_env [(''degreeMode'', JBool False)] (if Some rejected = None then snd (setMathBounds no_batch_no_bounds_env DEFAULT_BOUNDS (snd (updateSettings no_batch_no_bounds_env DEFAULT_SETTINGS blank_widget))) else snd (updateSettings no_batch_no_bounds_env DEFAULT_SETTINGS blank_widget)) = (None, snd (updateSettings no_batch_no_bounds_env [(''degreeMode'', JBool False)] (snd (updateSettings no_batch_no_bounds_env DEFAULT_SETTINGS blank_widget))))"
    by code_simp
  have a3: "updateSettings no_batch_no_bounds_env [(''xAxisScale'', JStr ''logarithmic'')] (snd (updateSettings no_batch_no_bounds_env [(''degreeMode'', JBool False)] (snd (updateSettings no_batch_no_bounds_env DEFAULT_SETTINGS blank_widget)))) = (None, snd (updateSettings no_batch_no_bounds_env [(''xAxisScale'', JStr ''logarithmic'')] (snd (updateSettings no_batch_no_bounds_env [(''degreeMode'', JBool False)] (snd (updateSettings no_batch_no_bounds_env DEFAULT_SETTINGS blank_widget))))))"
    by code_simp
  have a4: "setMathBounds no_batch_no_bounds_env DEFAULT_BOUNDS (snd (updateSettings no_batch_no_bounds_env [(''xAxisScale'', JStr ''logarithmic'')] (snd (updateSettings no_batch_no_bounds_env [(''degreeMode'', JBool False)] (snd (updateSettings no_batch_no_bounds_env DEFAULT_SETTINGS blank_widget)))))) = (Some rejected, snd (setMathBounds no_batch_no_bounds_env DEFAULT_BOUNDS (snd (updateSettings no_batch_no_bounds_env [(''xAxisScale'', JStr ''logarithmic'')] (snd (updateSettings no_batch_no_bounds_env [(''degreeMode'', JBool False)] (snd (updateSettings no_batch_no_bounds_env DEFAULT_SETTINGS blank_widget))))))))"
    by code_simp
  have c0: "updateSettings no_status_env DEFAULT_SETTINGS blank_widget = (None, snd (updateSettings no_status_env DEFAULT_SETTINGS blank_widget))"
    by code_simp
  have c1: "setMathBounds no_status_env DEFAULT_BOUNDS (snd (updateSettings no_status_env DEFAULT_SETTINGS blank_widget)) = (None, snd (setMathBounds no_status_env DEFAULT_BOUNDS (snd (updateSettings no_status_env DEFAULT_SETTINGS blank_widget))))"
    by code_simp
  have c2: "updateSettings no_status_env [(''degreeMode'', JBool False)] (if None = None then snd (setMathBounds no_status_env DEFAULT_BOUNDS (snd (updateSettings no_status_env DEFAULT_SETTINGS blank_widget))) else snd (updateSettings no_status_env DEFAULT_SETTINGS blank_widget)) = (None, snd (updateSettings no_status_env [(''degreeMode'', JBool False)] (snd (setMathBounds no_status_env DEFAULT_BOUNDS (snd (updateSettings no_status_env DEFAULT_SETTINGS blank_widget))))))"
    by code_simp
  have c3: "updateSettings no_status_env [(''xAxisScale'', JStr ''logarithmic'')] (snd (updateSettings no_status_env [(''degreeMode'', JBool False)] (snd (setMathBounds no_status_env DEFAULT_BOUNDS (snd (updateSettings no_status_env DEFAULT_SETTINGS blank_widget)))))) = (None, snd (updateSettings no_status_env [(''xAxisScale'', JStr ''logarithmic'')] (snd (updateSettings no_status_env [(''degreeMode'', JBool False)] (snd (setMathBounds no_status_env DEFAULT_BOUNDS (snd (updateSettings no_status_env DEFAULT_SETTINGS blank_widget))))))))"
    by code_simp
  have c4: "setMathBounds no_status_env DEFAULT_BOUNDS (snd (updateSettings no_status_env [(''xAxisScale'', JStr ''logarithmic'')] (snd (updateSettings no_status_env [(''degreeMode'', JBool False)] (snd (setMathBounds no_status_env DEFAULT_BOUNDS (snd (updateSettings no_status_env DEFAULT_SETTINGS blank_widget)))))))) = (None, snd (setMathBounds no_status_env DEFAULT_BOUNDS (snd (updateSettings no_status_env [(''xAxisScale'', JStr ''logarithmic'')] (snd (updateSettings no_status_env [(''degreeMode'', JBool False)] (snd (setMathBounds no_status_env DEFAULT_BOUNDS (snd (updateSettings no_status_env DEFAULT_SETTINGS blank_widget))))))))))"
    by code_simp
  have cn: "settings_of no_status_env (snd (setMathBounds no_status_env DEFAULT_BOUNDS (snd (updateSettings no_status_env DEFAULT_SETTINGS blank_widget)))) = None"
    by code_simp
  have d0: "updateSettings plain_env DEFAULT_SETTINGS blank_widget = (None, snd (updateSettings plain_env DEFAULT_SETTINGS blank_widget))"
    by code_simp
  have d1: "setMathBounds plain_env DEFAULT_BOUNDS (snd (updateSettings plain_env DEFAULT_SETTINGS blank_widget)) = (None, snd (setMathBounds plain_env DEFAULT_BOUNDS (snd (updateSettings plain_env DEFAULT_SETTINGS blank_widget))))"
    by code_simp
  have d2: "updateSettings plain_env [(''degreeMode'', JBool False)] (if None = None then snd (setMathBounds plain_env DEFAULT_BOUNDS (snd (updateSettings plain_env DEFAULT_SETTINGS blank_widget))) else snd (updateSettings plain_env DEFAULT_SETTINGS blank_widget)) = (None, snd (updateSettings plain_env [(''degreeMode'', JBool False)] (snd (setMathBounds plain_env DEFAULT_BOUNDS (snd (updateSettings plain_env DEFAULT_SETTINGS blank_widget))))))"
    by code_simp
  have d3: "updateSettings plain_env [(''xAxisScale'', JStr ''logarithmic'')] (snd (updateSettings plain_env [(''degreeMode'', JBool False)] (snd (setMathBounds plain_env DEFAULT_BOUNDS (snd (updateSettings plain_env DEFAULT_SETTINGS blank_widget)))))) = (None, snd (updateSettings plain_env [(''xAxisScale'', JStr ''logarithmic'')] (snd (updateSettings plain_env [(''degreeMode'', JBool False)] (snd (setMathBounds plain_env DEFAULT_BOUNDS (snd (updateSettings plain_env DEFAULT_SETTINGS blank_widget))))))))"
    by code_simp
  have d4: "setMathBounds plain_env DEFAULT_BOUNDS (snd (updateSettings plain_env [(''xAxisScale'', JStr ''logarithmic'')] (snd (updateSettings plain_env [(''degreeMode'', JBool False)] (snd (setMathBounds plain_env DEFAULT_BOUNDS (snd (updateSettings plain_env DEFAULT_SETTINGS blank_widget)))))))) = (None, snd (setMathBounds plain_env DEFAULT_BOUNDS (snd (updateSettings plain_env [(''xAxisScale'', JStr ''logarithmic'')] (snd (updateSettings plain_env [(''degreeMode'', JBool False)] (snd (setMathBounds plain_env DEFAULT_BOUNDS (snd (updateSettings plain_env DEFAULT_SETTINGS blank_widget))))))))))"
    by code_simp
  have dn: "settings_of plain_env (snd (setMathBounds plain_env DEFAULT_BOUNDS (snd (updateSettings plain_env DEFAULT_SETTINGS blank_widget)))) \<noteq> None"
    by code_simp
  show ?thesis
    using h cn dn
      bounds_failure_retried_once [OF h b0 b1 b2 b3 b4, of rejected]
      bounds_failure_retried_once [OF h a0 a1 a2 a3 a4, of rejected]
      bounds_failure_retried_once [OF h c0 c1 c2 c3 c4, of rejected]
      bounds_failure_retried_once [OF h d0 d1 d2 d3 d4, of rejected]
    by simp
qed

lemma applySettings_try_ok:
  "fst (applySettings_try env s) = None \<Longrightarrow>
     isReady (snd (applySettings_try env s))
     \<and> window (snd (applySettings_try env s)) ''calculatorReady'' = Some (JBool True)"
  by (simp add: applySettings_try_def split_beta split: option.splits)

lemma applySettings_try_throw:
  "fst (applySettings_try env s) \<noteq> None \<Longrightarrow>
     isReady (snd (applySettings_try env s)) = isReady s
     \<and> window (snd (applySettings_try env s)) = window s"
  by (simp add: applySettings_try_def split_beta split: option.splits)

lemma applySettings_callback_ready:
  "settings_succeed env s \<Longrightarrow>
     isReady (applySettings_callback env s)
     \<and> window (applySettings_callback env s) ''calculatorReady'' = Some (JBool True)"
  using applySettings_try_ok [of env "settings_entry s"]
  by (simp add: settings_succeed_def applySettings_callback_def settings_entry_def
      addExpressions_def split_beta)

lemma applySettings_callback_fallback:
  "\<not> settings_succeed env s \<Longrightarrow>
     isReady (applySettings_callback env s) = isReady s
     \<and> window (applySettings_callback env s) = window s"
  using applySettings_try_throw [of env "settings_entry s"]
  by (auto simp: settings_succeed_def applySettings_callback_def settings_entry_def
      addExpressions_def split_beta)



lemma run_timers_after_settings:
  assumes "timers s = []"
  shows "run_timers env (applySettings_callback env s)
           = addExpressions_callback env (elapse 200 (applySettings_callback env s))"
proof -
  have t: "timers (applySettings_callback env s) = [(now s + 200, AddExpressionsTimer)]"
    using assms by simp
  have "run_timers env (applySettings_callback env s)
          = run_timers env (addExpressions_callback env
              ((applySettings_callback env s)\<lparr>timers := [],
                 now := max (now (applySettings_callback env s)) (now s + 200)\<rparr>))"
    by (subst run_timers_single [OF t]) simp
  also have "\<dots> = addExpressions_callback env
              ((applySettings_callback env s)\<lparr>timers := [],
                 now := max (now (applySettings_callback env s)) (now s + 200)\<rparr>)"
    by (rule run_timers_idle) simp
  finally show ?thesis by (simp add: elapse_def)
qed

section \<open>Settings phase: readiness and the hand-over to the expression phase\<close>






section \<open>Expression phase: the unit definitions after the core batch\<close>

lemma lists_disjoint: "set coreExpressions \<inter> set UNIT_DEFINITIONS = {}"
  by (simp add: coreExpressions_def UNIT_DEFINITIONS_def expr_def)

text \<open>
  Claim C4 as stated fails. With a widget that rejects the first core expression, the
  expression callback makes that one call and nothing else: the throw leaves the single
  \<^verbatim>\<open>try\<close> block that also holds \<^verbatim>\<open>addUnitDefinitions\<close>, so no unit definition is attempted
  and no per-unit line is logged.
\<close>

theorem units_skipped_counterexample:
  "calculator mounted = Some blank_widget
   \<and> new_calls mounted (addExpressions_callback no_core_env mounted)
       = [(CallSetExpression (coreExpressions ! 0), Some rejected)]
   \<and> new_lines mounted (addExpressions_callback no_core_env mounted)
       = [(LogLevel, ''Adding expressions...'', []),
          (ErrorLevel, ''Error adding expressions:'', [rejected])]"
proof -
  have h: "calculator mounted = Some blank_widget"
    by code_simp
  have o: "core_outcome no_core_env mounted = Some rejected"
    by code_simp
  have c: "new_calls mounted (after_core no_core_env mounted)
       = [(CallSetExpression (coreExpressions ! 0), Some rejected)]"
    by code_simp
  have l: "new_lines mounted (console_error ''Error adding expressions:'' [rejected]
              (after_core no_core_env mounted))
       = [(LogLevel, ''Adding expressions...'', []),
          (ErrorLevel, ''Error adding expressions:'', [rejected])]"
    by code_simp
  show ?thesis
    using h c l by (simp add: addExpressions_callback_throw [OF o] new_calls_def)
qed

text \<open>
  Claim C4, amended. Whenever the expression callback runs on a manager that holds a widget
  and the core batch completes without a throw, each of the eight unit definitions is
  attempted independently: one \<^verbatim>\<open>setExpression\<close> call each, in the declared order, each
  with its own success or failure line, followed by the line that closes the phase. When a
  core expression throws, nothing is called after the core batch and no unit definition is
  attempted.
\<close>

theorem units_follow_core:
  assumes "calculator s = Some w"
  shows "(core_outcome env s = None \<longrightarrow>
            map fst (new_calls (after_core env s) (addExpressions_callback env s))
              = map CallSetExpression UNIT_DEFINITIONS
            \<and> new_lines (after_core env s) (addExpressions_callback env s)
              = map2 unit_line [1 ..< 9]
                  (map snd (new_calls (after_core env s) (addExpressions_callback env s)))
                @ [(LogLevel, ''All expressions added successfully!'', [])])
       \<and> (core_outcome env s \<noteq> None \<longrightarrow>
            new_calls (after_core env s) (addExpressions_callback env s) = []
            \<and> (\<forall>u\<in>set UNIT_DEFINITIONS.
                  CallSetExpression u
                    \<notin> fst ` set (new_calls s (addExpressions_callback env s))))"
proof (cases "core_outcome env s")
  case None
  from assms have k1: "calculator (after_core env s) \<noteq> None" by simp
  from addUnitDefinitions_trace [OF k1, of env] obtain rs where rs: "length rs = 8"
    and c: "calls (addUnitDefinitions env (after_core env s))
          = calls (after_core env s) @ zip (map CallSetExpression UNIT_DEFINITIONS) rs"
    and l: "console (addUnitDefinitions env (after_core env s))
          = console (after_core env s) @ map2 unit_line [1 ..< 9] rs"
    by blast
  have c': "calls (addExpressions_callback env s)
          = calls (after_core env s) @ zip (map CallSetExpression UNIT_DEFINITIONS) rs"
    by (simp add: addExpressions_callback_ok [OF None] c)
  have l': "console (addExpressions_callback env s)
          = console (after_core env s) @ (map2 unit_line [1 ..< 9] rs
              @ [(LogLevel, ''All expressions added successfully!'', [])])"
    by (simp add: addExpressions_callback_ok [OF None] l)
  show ?thesis
    unfolding new_calls_append [OF c'] new_lines_append [OF l']
    using None rs by simp
next
  case (Some x)
  from assms have k0: "calculator s \<noteq> None" by simp
  have a: "calls (addExpressions_callback env s) = calls (after_core env s) @ []"
    by (simp add: addExpressions_callback_throw [OF Some])
  from after_core_throw [OF k0 Some] obtain n where n: "n < 6"
    and c: "calls (after_core env s)
         = calls s @ map (\<lambda>e. (CallSetExpression e, None)) (take n coreExpressions)
           @ [(CallSetExpression (coreExpressions ! n), Some x)]"
    by blast
  have c': "calls (addExpressions_callback env s)
         = calls s @ map (\<lambda>e. (CallSetExpression e, None)) (take n coreExpressions)
           @ [(CallSetExpression (coreExpressions ! n), Some x)]"
    using a c by simp
  have "CallSetExpression u \<notin> fst ` set (new_calls s (addExpressions_callback env s))"
    if u: "u \<in> set UNIT_DEFINITIONS" for u
  proof -
    have "u \<notin> set coreExpressions"
      using u lists_disjoint by blast
    moreover have "set (take n coreExpressions) \<subseteq> set coreExpressions"
      by (rule set_take_subset)
    moreover have "coreExpressions ! n \<in> set coreExpressions"
      using n by simp
    ultimately show ?thesis
      unfolding new_calls_append [OF c'] by (auto simp: image_iff)
  qed
  with Some new_calls_append [OF a] show ?thesis by simp
qed

theorem units_follow_core_witness:
  "calculator mounted = Some blank_widget
   \<and> core_outcome plain_env mounted = None
   \<and> map fst (new_calls (after_core plain_env mounted) (addExpressions_callback plain_env mounted))
       = map CallSetExpression UNIT_DEFINITIONS
   \<and> core_outcome no_core_env mounted \<noteq> None
   \<and> new_calls (after_core no_core_env mounted) (addExpressions_callback no_core_env mounted) = []"
proof -
  have h: "calculator mounted = Some blank_widget"
    by code_simp
  have a: "core_outcome plain_env mounted = None"
    by code_simp
  have b: "core_outcome no_core_env mounted \<noteq> None"
    by code_simp
  show ?thesis
    using h a b units_follow_core [OF h, of plain_env] units_follow_core [OF h, of no_core_env]
    by simp
qed

section \<open>A whole run of the page\<close>

lemma init_flags [simp]:
  "isReady (snd (init env s)) = isReady s"
  "isFullyReady (snd (init env s)) = isFullyReady s"
  by (simp_all add: init_def applySettings_def Let_def split: option.split sum.split)

lemma init_mounts:
  assumes "getElementById env (elementId s) = Some el"
    and "GraphingCalculator env el CALCULATOR_CONFIG = Inr w"
  shows "fst (init env s) = None"
    and "timers (snd (init env s)) = timers s @ [(now s + 500, ApplySettingsTimer)]"
    and "now (snd (init env s)) = now s"
  using assms by (simp_all add: init_def applySettings_def Let_def)

lemma run_page_mounts:
  assumes "getElementById env ''calculator'' = Some el"
    and "GraphingCalculator env el CALCULATOR_CONFIG = Inr w"
  shows "run_page env pg z =
           (None,
            addExpressions_callback env (elapse 200
              (applySettings_callback env (elapse 500
                 (snd (initializeCalculator env pg z))))))"
proof -
  let ?c = "constructor pg ''calculator'' z :: 'a state"
  let ?s = "snd (init env ?c)"
  have e: "getElementById env (elementId ?c) = Some el"
    using assms(1) by (simp add: constructor_def)
  have t: "timers ?s = [(now ?c + 500, ApplySettingsTimer)]" and n: "now ?s = now ?c"
    using init_mounts(2,3) [OF e assms(2)] by (simp_all add: constructor_def)
  have "run_timers env ?s = run_timers env (applySettings_callback env (elapse 500 ?s))"
    by (subst run_timers_single [OF t]) (simp add: elapse_def n)
  also have "\<dots> = addExpressions_callback env (elapse 200
              (applySettings_callback env (elapse 500 ?s)))"
    by (rule run_timers_after_settings) (simp add: elapse_def)
  finally show ?thesis
    using init_mounts(1) [OF e assms(2)]
    by (simp add: run_page_def initializeCalculator_def split_beta)
qed

section \<open>The readiness flags\<close>

lemma addExpressions_callback_keeps_full:
  "isFullyReady s \<Longrightarrow> isFullyReady (addExpressions_callback env s)"
  by (simp add: addExpressions_callback_def addExpressions_try_def addCoreExpressions_def
      addUnitDefinitions_def split_beta Let_def split: option.split)

lemma applySettings_callback_keeps_ready:
  "isReady s \<Longrightarrow> isReady (applySettings_callback env s)"
  using applySettings_callback_ready [of env s] applySettings_callback_fallback [of env s]
  by (cases "settings_succeed env s") simp_all

lemma turn_keeps:
  "isReady s \<Longrightarrow> isReady (turn env t rest s)"
  "isFullyReady s \<Longrightarrow> isFullyReady (turn env t rest s)"
  by (cases "snd t";
      simp add: turn_def applySettings_callback_keeps_ready addExpressions_callback_keeps_full)+

lemma run_timers_keeps_ready:
  "isReady s \<Longrightarrow> isReady (run_timers env s)"
proof (induction env s rule: run_timers.induct)
  case (1 env s)
  show ?case
  proof (cases "next_timer (timers s)")
    case None
    with 1 show ?thesis by (subst run_timers.simps) simp
  next
    case (Some p)
    obtain t rest where p: "p = (t, rest)" by (cases p)
    from "1.IH" [OF Some [unfolded p] refl turn_keeps(1) [OF "1.prems"]] Some p
    show ?thesis by (subst run_timers.simps) simp
  qed
qed

lemma run_timers_keeps_full:
  "isFullyReady s \<Longrightarrow> isFullyReady (run_timers env s)"
proof (induction env s rule: run_timers.induct)
  case (1 env s)
  show ?case
  proof (cases "next_timer (timers s)")
    case None
    with 1 show ?thesis by (subst run_timers.simps) simp
  next
    case (Some p)
    obtain t rest where p: "p = (t, rest)" by (cases p)
    from "1.IH" [OF Some [unfolded p] refl turn_keeps(2) [OF "1.prems"]] Some p
    show ?thesis by (subst run_timers.simps) simp
  qed
qed

text \<open>
  Claim C8 as stated fails in its last part. With a widget that rejects the batch
  \<^verbatim>\<open>updateSettings\<close> call and accepts everything else, a whole run of the page ends with
  \<^verbatim>\<open>isFullyReady\<close> true and \<^verbatim>\<open>isReady\<close> still false: the fallback path never sets
  \<^verbatim>\<open>isReady\<close>, and the expression callback runs all the same.
\<close>

theorem fully_ready_without_ready_counterexample:
  "fst (run_page no_batch_env blank_page ''1/(1+s)'') = None
   \<and> isFullyReady (snd (run_page no_batch_env blank_page ''1/(1+s)''))
   \<and> \<not> isReady (snd (run_page no_batch_env blank_page ''1/(1+s)''))"
proof -
  let ?s = "elapse 200 (applySettings_callback no_batch_env (elapse 500
              (snd (initializeCalculator no_batch_env blank_page ''1/(1+s)''))))"
  have e: "getElementById no_batch_env ''calculator'' = Some 0"
    by code_simp
  have g: "GraphingCalculator no_batch_env 0 CALCULATOR_CONFIG = Inr blank_widget"
    by code_simp
  have r: "run_page no_batch_env blank_page ''1/(1+s)''
             = (None, addExpressions_callback no_batch_env ?s)"
    by (rule run_page_mounts [OF e g])
  have a: "\<not> isReady ?s"
    by code_simp
  have o: "core_outcome no_batch_env ?s = None"
    by code_simp
  show ?thesis
    using a by (simp add: r) (simp add: addExpressions_callback_ok [OF o])
qed

lemma run_page_no_callback:
  assumes "getElementById env ''calculator'' = None
           \<or> (\<exists>el e. getElementById env ''calculator'' = Some el
                 \<and> GraphingCalculator env el CALCULATOR_CONFIG = Inl e)"
  shows "run_page env pg z = initializeCalculator env pg z"
    and "\<not> isReady (snd (run_page env pg z))"
    and "\<not> isFullyReady (snd (run_page env pg z))"
proof -
  have t: "timers (snd (initializeCalculator env pg z)) = []"
    using assms
    by (auto simp: initializeCalculator_def init_def constructor_def Let_def)
  show r: "run_page env pg z = initializeCalculator env pg z"
    by (simp add: run_page_def split_beta run_timers_idle [OF t])
  show "\<not> isReady (snd (run_page env pg z))" "\<not> isFullyReady (snd (run_page env pg z))"
    unfolding r by (simp_all add: initializeCalculator_def constructor_def)
qed

lemma run_page_constructor_throws:
  assumes "getElementById env ''calculator'' = Some el"
    and "GraphingCalculator env el CALCULATOR_CONFIG = Inl e"
  shows "fst (run_page env pg z) = Some e"
proof -
  have "run_page env pg z = initializeCalculator env pg z"
    using assms by (intro run_page_no_callback(1)) blast
  then show ?thesis
    using assms by (simp add: initializeCalculator_def init_def constructor_def Let_def)
qed

text \<open>
  Claim C8, amended. Both flags are booleans, so there is no intermediate state, and both
  are false in a new manager. No operation ever takes either back from true to false: not
  \<^verbatim>\<open>init\<close>, not the settings callback, not the expression callback, and so no run of the
  timer queue. \<^verbatim>\<open>isReady\<close> can change only in the settings callback and
  \<^verbatim>\<open>isFullyReady\<close> only in the expression callback. A run of the page in which the element
  is found and the widget constructor returns is \<^verbatim>\<open>init\<close>, then the settings callback,
  then the expression callback, so \<^verbatim>\<open>isReady\<close>, when it becomes true at all, does so
  before \<^verbatim>\<open>isFullyReady\<close>. In a run in which the element is missing or the constructor
  throws, no callback runs and both flags stay false.
\<close>

theorem readiness_monotone:
  "\<not> isReady (constructor pg eid z :: 'w state)
   \<and> \<not> isFullyReady (constructor pg eid z :: 'w state)
   \<and> isReady s \<in> {False, True} \<and> isFullyReady s \<in> {False, True}
   \<and> (isReady s \<longrightarrow>
        isReady (snd (init env s)) \<and> isReady (applySettings_callback env s)
        \<and> isReady (addExpressions_callback env s) \<and> isReady (run_timers env s))
   \<and> (isFullyReady s \<longrightarrow>
        isFullyReady (snd (init env s)) \<and> isFullyReady (applySettings_callback env s)
        \<and> isFullyReady (addExpressions_callback env s) \<and> isFullyReady (run_timers env s))
   \<and> isReady (snd (init env s)) = isReady s
   \<and> isFullyReady (snd (init env s)) = isFullyReady s
   \<and> isFullyReady (applySettings_callback env s) = isFullyReady s
   \<and> isReady (addExpressions_callback env s) = isReady s
   \<and> (getElementById env ''calculator'' = Some el
        \<and> GraphingCalculator env el CALCULATOR_CONFIG = Inr w \<longrightarrow>
        run_page env pg z =
          (None,
           addExpressions_callback env (elapse 200
             (applySettings_callback env (elapse 500
                (snd (initializeCalculator env pg z)))))))
   \<and> (getElementById env ''calculator'' = Some el
        \<and> GraphingCalculator env el CALCULATOR_CONFIG = Inl e \<longrightarrow>
        run_page env pg z = initializeCalculator env pg z
        \<and> fst (run_page env pg z) = Some e
        \<and> \<not> isReady (snd (run_page env pg z))
        \<and> \<not> isFullyReady (snd (run_page env pg z)))
   \<and> (getElementById env ''calculator'' = None \<longrightarrow>
        run_page env pg z = initializeCalculator env pg z
        \<and> \<not> isReady (snd (run_page env pg z))
        \<and> \<not> isFullyReady (snd (run_page env pg z)))"
proof -
  have t: "run_page env pg z = initializeCalculator env pg z
        \<and> fst (run_page env pg z) = Some e
        \<and> \<not> isReady (snd (run_page env pg z))
        \<and> \<not> isFullyReady (snd (run_page env pg z))"
    if "getElementById env ''calculator'' = Some el"
      and "GraphingCalculator env el CALCULATOR_CONFIG = Inl e"
    using run_page_no_callback [of env pg z] run_page_constructor_throws [OF that, of pg z] that
    by blast
  have m: "run_page env pg z = initializeCalculator env pg z
        \<and> \<not> isReady (snd (run_page env pg z))
        \<and> \<not> isFullyReady (snd (run_page env pg z))"
    if "getElementById env ''calculator'' = None"
    using run_page_no_callback [of env pg z] that by blast
  have b: "\<not> isReady (constructor pg eid z :: 'w state)
   \<and> \<not> isFullyReady (constructor pg eid z :: 'w state)
   \<and> isReady s \<in> {False, True} \<and> isFullyReady s \<in> {False, True}
   \<and> (isReady s \<longrightarrow>
        isReady (snd (init env s)) \<and> isReady (applySettings_callback env s)
        \<and> isReady (addExpressions_callback env s) \<and> isReady (run_timers env s))
   \<and> (isFullyReady s \<longrightarrow>
        isFullyReady (snd (init env s)) \<and> isFullyReady (applySettings_callback env s)
        \<and> isFullyReady (addExpressions_callback env s) \<and> isFullyReady (run_timers env s))
   \<and> isReady (snd (init env s)) = isReady s
   \<and> isFullyReady (snd (init env s)) = isFullyReady s
   \<and> isFullyReady (applySettings_callback env s) = isFullyReady s
   \<and> isReady (addExpressions_callback env s) = isReady s
   \<and> (getElementById env ''calculator'' = Some el
        \<and> GraphingCalculator env el CALCULATOR_CONFIG = Inr w \<longrightarrow>
        run_page env pg z =
          (None,
           addExpressions_callback env (elapse 200
             (applySettings_callback env (elapse 500
                (snd (initializeCalculator env pg z)))))))"
    by (simp add: constructor_def applySettings_callback_keeps_ready
        addExpressions_callback_keeps_full run_timers_keeps_ready run_timers_keeps_full
        run_page_mounts)
  from b t m show ?thesis by blast
qed

theorem readiness_monotone_witness:
  "isReady (applySettings_callback plain_env mounted)
   \<and> isReady (run_timers plain_env (applySettings_callback plain_env mounted))
   \<and> isFullyReady (mounted\<lparr>isFullyReady := True\<rparr>)
   \<and> isFullyReady (run_timers no_core_env (mounted\<lparr>isFullyReady := True\<rparr>))
   \<and> getElementById plain_env ''calculator'' = Some 0
   \<and> GraphingCalculator plain_env 0 CALCULATOR_CONFIG = Inr blank_widget
   \<and> run_page plain_env blank_page ''1/(1+s)'' =
       (None,
        addExpressions_callback plain_env (elapse 200
          (applySettings_callback plain_env (elapse 500
             (snd (initializeCalculator plain_env blank_page ''1/(1+s)''))))))
   \<and> getElementById no_widget_env ''calculator'' = Some 0
   \<and> GraphingCalculator no_widget_env 0 CALCULATOR_CONFIG = Inl rejected
   \<and> fst (run_page no_widget_env blank_page ''1/(1+s)'') = Some rejected
   \<and> \<not> isFullyReady (snd (run_page no_widget_env blank_page ''1/(1+s)''))
   \<and> getElementById no_element_env ''calculator'' = None
   \<and> \<not> isFullyReady (snd (run_page no_element_env blank_page ''1/(1+s)''))"
proof -
  have a: "isReady (applySettings_callback plain_env mounted)"
    by code_simp
  have b: "isFullyReady (mounted\<lparr>isFullyReady := True\<rparr>)"
    by simp
  have e: "getElementById plain_env ''calculator'' = Some 0"
    by code_simp
  have g: "GraphingCalculator plain_env 0 CALCULATOR_CONFIG = Inr blank_widget"
    by code_simp
  have e2: "getElementById no_widget_env ''calculator'' = Some 0"
    by code_simp
  have g2: "GraphingCalculator no_widget_env 0 CALCULATOR_CONFIG = Inl rejected"
    by code_simp
  have e3: "getElementById no_element_env ''calculator'' = None"
    by code_simp
  have p1: "isReady (run_timers plain_env (applySettings_callback plain_env mounted))"
    using a readiness_monotone [of blank_page "''calculator''" "''1/(1+s)''"
        "applySettings_callback plain_env mounted" plain_env 0 blank_widget rejected]
    by blast
  have p2: "isFullyReady (run_timers no_core_env (mounted\<lparr>isFullyReady := True\<rparr>))"
    using b readiness_monotone [of blank_page "''calculator''" "''1/(1+s)''"
        "mounted\<lparr>isFullyReady := True\<rparr>" no_core_env 0 blank_widget rejected]
    by blast
  have p3: "run_page plain_env blank_page ''1/(1+s)'' =
       (None,
        addExpressions_callback plain_env (elapse 200
          (applySettings_callback plain_env (elapse 500
             (snd (initializeCalculator plain_env blank_page ''1/(1+s)''))))))"
    using e g readiness_monotone [of blank_page "''calculator''" "''1/(1+s)''"
        mounted plain_env 0 blank_widget rejected]
    by blast
  have p4: "fst (run_page no_widget_env blank_page ''1/(1+s)'') = Some rejected
   \<and> \<not> isFullyReady (snd (run_page no_widget_env blank_page ''1/(1+s)''))"
    using e2 g2 readiness_monotone [of blank_page "''calculator''" "''1/(1+s)''"
        mounted no_widget_env 0 blank_widget rejected]
    by blast
  have p5: "\<not> isFullyReady (snd (run_page no_element_env blank_page ''1/(1+s)''))"
    using e3 readiness_monotone [of blank_page "''calculator''" "''1/(1+s)''"
        mounted no_element_env 0 blank_widget rejected]
    by blast
  from a b e g e2 g2 e3 p1 p2 p3 p4 p5 show ?thesis
    by (intro conjI) (erule conjunct1 conjunct2 | assumption)+
qed

section \<open>The formula parameter\<close>

text \<open>
  Every operation commutes with a change of the \<^verbatim>\<open>zLatex\<close> field: none reads it.
\<close>

lemma with_formula_fields [simp]:
  "elementId (with_formula z s) = elementId s"
  "zLatex (with_formula z s) = z"
  "calculator (with_formula z s) = calculator s"
  "isReady (with_formula z s) = isReady s"
  "isFullyReady (with_formula z s) = isFullyReady s"
  "console (with_formula z s) = console s"
  "window (with_formula z s) = window s"
  "timers (with_formula z s) = timers s"
  "now (with_formula z s) = now s"
  "calls (with_formula z s) = calls s"
  by (simp_all add: with_formula_def)

lemma with_formula_updates [simp]:
  "calculator_update f (with_formula z s) = with_formula z (calculator_update f s)"
  "isReady_update g (with_formula z s) = with_formula z (isReady_update g s)"
  "isFullyReady_update g (with_formula z s) = with_formula z (isFullyReady_update g s)"
  "console_update h (with_formula z s) = with_formula z (console_update h s)"
  "window_update k (with_formula z s) = with_formula z (window_update k s)"
  "timers_update l (with_formula z s) = with_formula z (timers_update l s)"
  "now_update m (with_formula z s) = with_formula z (now_update m s)"
  "calls_update n (with_formula z s) = with_formula z (calls_update n s)"
  by (simp_all add: with_formula_def)

lemma basic_formula [simp]:
  "console_log m a (with_formula z s) = with_formula z (console_log m a s)"
  "console_error m a (with_formula z s) = with_formula z (console_error m a s)"
  "setTimeout k d (with_formula z s) = with_formula z (setTimeout k d s)"
  "addExpressions (with_formula z s) = with_formula z (addExpressions s)"
  "applySettings (with_formula z s) = with_formula z (applySettings s)"
  "read_settings env (with_formula z s) = read_settings env s"
  by (simp_all add: with_formula_def console_log_def console_error_def setTimeout_def
      addExpressions_def applySettings_def read_settings_def)

lemma call_formula [simp]:
  "call_updateSettings env st (with_formula z s)
     = apsnd (with_formula z) (call_updateSettings env st s)"
  "call_setMathBounds env b (with_formula z s)
     = apsnd (with_formula z) (call_setMathBounds env b s)"
  "call_setExpression env e (with_formula z s)
     = apsnd (with_formula z) (call_setExpression env e s)"
  by (simp_all add: with_formula_def call_updateSettings_def call_setMathBounds_def
      call_setExpression_def split: option.split prod.split)

lemma logSettingsStatus_formula [simp]:
  "logSettingsStatus env (with_formula z s) = apsnd (with_formula z) (logSettingsStatus env s)"
  by (simp add: logSettingsStatus_def Let_def split: option.split)

lemma trySettings_formula [simp]:
  "trySettings env xs (with_formula z s) = with_formula z (trySettings env xs s)"
proof (induction xs arbitrary: s)
  case Nil
  show ?case by simp
next
  case (Cons x xs)
  obtain st name where x: "x = (st, name)" by (cases x)
  show ?case
    unfolding x
    by (cases "fst (call_updateSettings env st s)") (simp_all add: split_beta Cons.IH)
qed

lemma applySettingsIndividually_formula [simp]:
  "applySettingsIndividually env (with_formula z s)
     = with_formula z (applySettingsIndividually env s)"
  by (simp add: applySettingsIndividually_def split_beta split: option.split)

lemma applySettings_try_formula [simp]:
  "applySettings_try env (with_formula z s) = apsnd (with_formula z) (applySettings_try env s)"
  by (simp add: applySettings_try_def split_beta split: option.split)

lemma applySettings_callback_formula [simp]:
  "applySettings_callback env (with_formula z s) = with_formula z (applySettings_callback env s)"
  by (simp add: applySettings_callback_def split_beta split: option.split)

lemma setExpressions_formula [simp]:
  "setExpressions env es (with_formula z s) = apsnd (with_formula z) (setExpressions env es s)"
  by (induction es arbitrary: s) (simp_all add: split_beta split: option.split)

lemma addUnits_formula [simp]:
  "addUnits env us i (with_formula z s) = with_formula z (addUnits env us i s)"
proof (induction us arbitrary: i s)
  case Nil
  show ?case by simp
next
  case (Cons u us)
  show ?case
    by (cases "fst (call_setExpression env u s)") (simp_all add: split_beta Cons.IH)
qed

lemma addExpressions_try_formula [simp]:
  "addExpressions_try env (with_formula z s) = apsnd (with_formula z) (addExpressions_try env s)"
  by (simp add: addExpressions_try_def addCoreExpressions_def addUnitDefinitions_def
      split_beta Let_def split: option.split)

lemma addExpressions_callback_formula [simp]:
  "addExpressions_callback env (with_formula z s)
     = with_formula z (addExpressions_callback env s)"
  by (simp add: addExpressions_callback_def split_beta split: option.split)

lemma init_formula [simp]:
  "init env (with_formula z s) = apsnd (with_formula z) (init env s)"
  by (simp add: init_def Let_def split: option.split sum.split)

lemma turn_formula [simp]:
  "turn env t rest (with_formula z s) = with_formula z (turn env t rest s)"
  by (cases "snd t") (simp_all add: turn_def)

lemma run_timers_formula:
  "run_timers env (with_formula z s) = with_formula z (run_timers env s)"
proof (induction env s rule: run_timers.induct)
  case (1 env s)
  show ?case
  proof (cases "next_timer (timers s)")
    case None
    then show ?thesis
      by (subst (1 2) run_timers.simps) simp
  next
    case (Some p)
    obtain t rest where p: "p = (t, rest)" by (cases p)
    from "1.IH" [OF Some [unfolded p] refl] Some p
    show ?thesis by (subst (1 2) run_timers.simps) simp
  qed
qed

lemma constructor_formula:
  "constructor pg eid z1 = with_formula z1 (constructor pg eid z2)"
  by (simp add: constructor_def with_formula_def)

text \<open>
  Claim C10. The formula string handed to \<^verbatim>\<open>initializeCalculator\<close> has no effect. For the
  same environment and page, two runs with different formula strings throw the same or
  nothing, and they end in states that differ in the stored \<^verbatim>\<open>zLatex\<close> field alone, right
  after the factory returns and after the timer queue has run: the calls made to the widget
  library, the console lines, the globals, both readiness flags, the widget and the result
  of \<^verbatim>\<open>getStatus\<close> are the same.
\<close>

theorem formula_has_no_effect:
  "fst (initializeCalculator env pg z1) = fst (initializeCalculator env pg z2)
   \<and> snd (initializeCalculator env pg z1)
       = (snd (initializeCalculator env pg z2))\<lparr>zLatex := z1\<rparr>
   \<and> fst (run_page env pg z1) = fst (run_page env pg z2)
   \<and> snd (run_page env pg z1) = (snd (run_page env pg z2))\<lparr>zLatex := z1\<rparr>
   \<and> calls (snd (run_page env pg z1)) = calls (snd (run_page env pg z2))
   \<and> console (snd (run_page env pg z1)) = console (snd (run_page env pg z2))
   \<and> window (snd (run_page env pg z1)) = window (snd (run_page env pg z2))
   \<and> isReady (snd (run_page env pg z1)) = isReady (snd (run_page env pg z2))
   \<and> isFullyReady (snd (run_page env pg z1)) = isFullyReady (snd (run_page env pg z2))
   \<and> getStatus (snd (run_page env pg z1)) = getStatus (snd (run_page env pg z2))"
proof -
  have i: "initializeCalculator env pg z1
             = apsnd (with_formula z1) (initializeCalculator env pg z2)"
    unfolding initializeCalculator_def constructor_formula [of pg _ z1 z2] by simp
  have r: "run_page env pg z1 = apsnd (with_formula z1) (run_page env pg z2)"
    by (simp add: run_page_def i split_beta run_timers_formula)
  show ?thesis
    unfolding i r by (simp add: getStatus_def with_formula_def)
qed

end
